theory Spec2Isabelle
  imports Complex_Main "HOL-Library.AList"
begin

section \<open>The two-tier cache (src/core/cache-manager.ts)\<close>

text \<open>
  Times are milliseconds since the epoch, as \<^verbatim>\<open>Date.now()\<close> returns them; every
  operation receives the instant at which it runs as an explicit argument \<open>now\<close>.
  A \<^verbatim>\<open>CacheEntry\<close> is the interface of the source, polymorphic in the document.
\<close>

record 'd CacheEntry =
  spec :: 'd
  etag :: "string option"
  lastModified :: "string option"
  timestamp :: int
  url :: string

subsection \<open>The in-memory tier: the lru-cache package as the constructor configures it\<close>

text \<open>
  \<^verbatim>\<open>LRUCache\<close> comes from the npm package lru-cache. The model follows its documented
  behaviour under the options the constructor passes (\<^verbatim>\<open>maxSize\<close>, \<^verbatim>\<open>ttl\<close>,
  \<^verbatim>\<open>sizeCalculation\<close>, \<^verbatim>\<open>updateAgeOnGet: true\<close>): items are kept most recently used
  first; an item older than the package's own ttl is dropped on \<^verbatim>\<open>get\<close> (a ttl of 0 switches
  this off); a hit moves the item to the front and restarts its age; \<^verbatim>\<open>set\<close> refuses an item
  larger than \<^verbatim>\<open>maxSize\<close> (and removes what was stored under the key), otherwise evicts
  from the least recently used end until the new item fits.
\<close>

record 'd lru_item =
  item_key :: string
  item_value :: "'d CacheEntry"
  item_size :: nat
  item_start :: int

record 'd LRUCache =
  lru_items :: "'d lru_item list"
  lru_maxSize :: nat
  lru_ttl :: int
  sizeCalculation :: "'d CacheEntry \<Rightarrow> nat"

definition lru_peek :: "'d LRUCache \<Rightarrow> string \<Rightarrow> 'd CacheEntry option" where
  "lru_peek c k = map_option item_value (find (\<lambda>i. item_key i = k) (lru_items c))"

definition lru_delete :: "'d LRUCache \<Rightarrow> string \<Rightarrow> 'd LRUCache" where
  "lru_delete c k = c\<lparr>lru_items := filter (\<lambda>i. item_key i \<noteq> k) (lru_items c)\<rparr>"

definition lru_get :: "'d LRUCache \<Rightarrow> int \<Rightarrow> string \<Rightarrow> 'd CacheEntry option \<times> 'd LRUCache" where
  "lru_get c now k =
     (case find (\<lambda>i. item_key i = k) (lru_items c) of
        None \<Rightarrow> (None, c)
      | Some i \<Rightarrow>
          if lru_ttl c \<noteq> 0 \<and> now - item_start i > lru_ttl c
          then (None, lru_delete c k)
          else (Some (item_value i),
                c\<lparr>lru_items := i\<lparr>item_start := now\<rparr> # filter (\<lambda>j. item_key j \<noteq> k) (lru_items c)\<rparr>))"

fun keep_within :: "nat \<Rightarrow> 'd lru_item list \<Rightarrow> 'd lru_item list" where
  "keep_within budget [] = []"
| "keep_within budget (i # is) =
     (if item_size i \<le> budget then i # keep_within (budget - item_size i) is else [])"

definition lru_set :: "'d LRUCache \<Rightarrow> int \<Rightarrow> string \<Rightarrow> 'd CacheEntry \<Rightarrow> 'd LRUCache" where
  "lru_set c now k v =
     (let size = sizeCalculation c v in
      if size > lru_maxSize c then lru_delete c k
      else c\<lparr>lru_items :=
             \<lparr>item_key = k, item_value = v, item_size = size, item_start = now\<rparr>
             # keep_within (lru_maxSize c - size) (filter (\<lambda>j. item_key j \<noteq> k) (lru_items c))\<rparr>)"

subsection \<open>The durable tier and the cache manager\<close>

text \<open>
  A file of the cache directory either decompresses and parses to an entry or is corrupt.
  Serialising an entry and parsing it back is taken to give the entry again.
  \<^verbatim>\<open>getCacheKey\<close> is SHA-256 in the source; here it is a field of the manager, so that
  nothing depends on which hash it is. Whether a write to the disk succeeds is an argument
  of \<open>CacheManager_set\<close>.

  The size of an entry is the length of \<^verbatim>\<open>JSON.stringify(entry)\<close>, which is defined on every
  entry whose document is a tree, as a parser returns it, and throws on a document with a
  cycle, which dereferencing can make. \<open>CacheManager_set\<close> is \<^verbatim>\<open>set\<close> on an entry that has a
  size. On any other one \<^verbatim>\<open>set\<close> throws at the size calculation, before it has stored
  anything; its only caller is \<^verbatim>\<open>fetchSpec\<close>, and \<open>process_response\<close> below has that throw.
\<close>

datatype 'd disk_file = Readable "'d CacheEntry" | Corrupt

record 'd CacheManager =
  memoryCache :: "'d LRUCache"
  cacheDir :: string
  ttl :: int
  getCacheKey :: "string \<Rightarrow> string"
  disk :: "string \<Rightarrow> 'd disk_file option"

definition CacheManager_new ::
  "string \<Rightarrow> int \<Rightarrow> nat \<Rightarrow> (string \<Rightarrow> string) \<Rightarrow> ('d CacheEntry \<Rightarrow> nat)
     \<Rightarrow> (string \<Rightarrow> 'd disk_file option) \<Rightarrow> 'd CacheManager" where
  "CacheManager_new dir ttlSeconds maxSizeMB hash sizeOf files =
     \<lparr>memoryCache = \<lparr>lru_items = [], lru_maxSize = maxSizeMB * 1024 * 1024,
                      lru_ttl = ttlSeconds * 1000, sizeCalculation = sizeOf\<rparr>,
      cacheDir = dir, ttl = ttlSeconds * 1000, getCacheKey = hash, disk = files\<rparr>"

definition getDiskCachePath :: "'d CacheManager \<Rightarrow> string \<Rightarrow> string" where
  "getDiskCachePath cm u = cacheDir cm @ ''/'' @ getCacheKey cm u @ ''.json.gz''"

definition CacheManager_get ::
  "'d CacheManager \<Rightarrow> int \<Rightarrow> string \<Rightarrow> 'd CacheEntry option \<times> 'd CacheManager" where
  "CacheManager_get cm now u =
     (let (memoryEntry, mc) = lru_get (memoryCache cm) now u in
      case (case memoryEntry of
              Some e \<Rightarrow> if now - timestamp e < ttl cm then Inl e else Inr (lru_delete mc u)
            | None \<Rightarrow> Inr mc) of
        Inl e \<Rightarrow> (Some e, cm\<lparr>memoryCache := mc\<rparr>)
      | Inr mc' \<Rightarrow>
          (let diskPath = getDiskCachePath cm u in
           case disk cm diskPath of
             None \<Rightarrow> (None, cm\<lparr>memoryCache := mc'\<rparr>)
           | Some Corrupt \<Rightarrow> (None, cm\<lparr>memoryCache := mc', disk := (disk cm)(diskPath := None)\<rparr>)
           | Some (Readable entry) \<Rightarrow>
               if now - timestamp entry < ttl cm
               then (Some entry, cm\<lparr>memoryCache := lru_set mc' now u entry\<rparr>)
               else (None, cm\<lparr>memoryCache := mc', disk := (disk cm)(diskPath := None)\<rparr>)))"

definition CacheManager_set ::
  "'d CacheManager \<Rightarrow> int \<Rightarrow> bool \<Rightarrow> string \<Rightarrow> 'd \<Rightarrow> string option \<Rightarrow> string option
     \<Rightarrow> 'd CacheManager" where
  "CacheManager_set cm now diskWriteOk u s e lm =
     (let entry = \<lparr>spec = s, etag = e, lastModified = lm, timestamp = now, url = u\<rparr>;
          cm' = cm\<lparr>memoryCache := lru_set (memoryCache cm) now u entry\<rparr>
      in if diskWriteOk
         then cm'\<lparr>disk := (disk cm)(getDiskCachePath cm u \<mapsto> Readable entry)\<rparr>
         else cm')"

definition CacheManager_getEtag ::
  "'d CacheManager \<Rightarrow> int \<Rightarrow> string \<Rightarrow> string option \<times> 'd CacheManager" where
  "CacheManager_getEtag cm now u =
     (let (entry, mc) = lru_get (memoryCache cm) now u in
      (case entry of Some e \<Rightarrow> etag e | None \<Rightarrow> None, cm\<lparr>memoryCache := mc\<rparr>))"

definition CacheManager_getLastModified ::
  "'d CacheManager \<Rightarrow> int \<Rightarrow> string \<Rightarrow> string option \<times> 'd CacheManager" where
  "CacheManager_getLastModified cm now u =
     (let (entry, mc) = lru_get (memoryCache cm) now u in
      (case entry of Some e \<Rightarrow> lastModified e | None \<Rightarrow> None, cm\<lparr>memoryCache := mc\<rparr>))"

text \<open>The entries the store holds for a URL: the one in memory and the one on disk.\<close>

definition stored :: "'d CacheManager \<Rightarrow> string \<Rightarrow> 'd CacheEntry \<Rightarrow> bool" where
  "stored cm u e \<longleftrightarrow>
     lru_peek (memoryCache cm) u = Some e \<or> disk cm (getDiskCachePath cm u) = Some (Readable e)"

text \<open>
  The memory tier holds an entry for a URL the way the manager puts it there: the package
  counts with the TTL of the manager, as the constructor sets it up, and counts the age of
  the item from an instant that is not before the timestamp of the entry (\<^verbatim>\<open>set\<close> takes both
  from the same clock; a load from the disk comes after the entry was written). The entry
  was not written after the instant \<open>t\<close>.
\<close>

definition memory_holds :: "'d CacheManager \<Rightarrow> string \<Rightarrow> 'd CacheEntry \<Rightarrow> int \<Rightarrow> bool" where
  "memory_holds cm u e t \<longleftrightarrow>
     lru_ttl (memoryCache cm) = ttl cm \<and>
     (case find (\<lambda>i. item_key i = u) (lru_items (memoryCache cm)) of
        None \<Rightarrow> False
      | Some i \<Rightarrow> item_value i = e \<and> timestamp e \<le> item_start i \<and> timestamp e \<le> t)"

section \<open>Fetching a document (src/core/openapi-client.ts)\<close>

subsection \<open>Requests, replies and the retry loop\<close>

text \<open>
  What the network gives back to one request is a response of some status or no response at
  all (timeout, refused connection, DNS failure). \<^verbatim>\<open>axios.get\<close> resolves with the response
  when \<^verbatim>\<open>validateStatus\<close> accepts its status and rejects otherwise; the rejection carries
  the response when there was one (\<^verbatim>\<open>error.response\<close>).
  The effects of the loop are recorded in a trace: each request sent, each delay waited.
\<close>

record 'b AxiosResponse =
  status :: int
  resp_headers :: "(string \<times> string) list"
  data :: 'b

datatype 'b reply = Reply "'b AxiosResponse" | NoReply

datatype 'b client_error =
    AxiosError "'b AxiosResponse option"
  | Undefined
  | ProcessingError string

datatype event = Request nat | Delay int

definition axios_get :: "(int \<Rightarrow> bool) \<Rightarrow> 'b reply \<Rightarrow> 'b client_error + 'b AxiosResponse" where
  "axios_get validateStatus r =
     (case r of
        Reply response \<Rightarrow>
          if validateStatus (status response) then Inr response
          else Inl (AxiosError (Some response))
      | NoReply \<Rightarrow> Inl (AxiosError None))"

text \<open>\<^verbatim>\<open>error.response && error.response.status >= 400 && error.response.status < 500\<close>\<close>

fun is_client_error :: "'b client_error \<Rightarrow> bool" where
  "is_client_error (AxiosError (Some response)) = (400 \<le> status response \<and> status response < 500)"
| "is_client_error _ = False"

function fetchWithRetry_from ::
  "int \<Rightarrow> int \<Rightarrow> (int \<Rightarrow> bool) \<Rightarrow> (nat \<Rightarrow> 'b reply) \<Rightarrow> nat \<Rightarrow> 'b client_error \<Rightarrow> event list
     \<Rightarrow> ('b client_error + 'b AxiosResponse) \<times> event list" where
  "fetchWithRetry_from retryAttempts retryDelay validateStatus net attempt lastError trace =
     (if int attempt < retryAttempts then
        (case axios_get validateStatus (net attempt) of
           Inr response \<Rightarrow> (Inr response, trace @ [Request attempt])
         | Inl error \<Rightarrow>
             if is_client_error error then (Inl error, trace @ [Request attempt])
             else fetchWithRetry_from retryAttempts retryDelay validateStatus net (Suc attempt) error
                    (trace @ Request attempt #
                       (if int attempt < retryAttempts - 1
                        then [Delay (retryDelay * 2 ^ attempt)] else [])))
      else (Inl lastError, trace))"
  by pat_completeness auto
termination
  by (relation "measure (\<lambda>(retryAttempts, _, _, _, attempt, _, _). nat (retryAttempts - int attempt))")
     auto

definition fetchWithRetry ::
  "int \<Rightarrow> int \<Rightarrow> (int \<Rightarrow> bool) \<Rightarrow> (nat \<Rightarrow> 'b reply)
     \<Rightarrow> ('b client_error + 'b AxiosResponse) \<times> event list" where
  "fetchWithRetry retryAttempts retryDelay validateStatus net =
     fetchWithRetry_from retryAttempts retryDelay validateStatus net 0 Undefined []"

text \<open>The two status policies of the source: the one \<^verbatim>\<open>fetchSpec\<close> passes, and the default of axios.\<close>

definition validateStatus_fetchSpec :: "int \<Rightarrow> bool" where
  "validateStatus_fetchSpec s \<longleftrightarrow> s < 400 \<or> s = 304"

definition validateStatus_default :: "int \<Rightarrow> bool" where
  "validateStatus_default s \<longleftrightarrow> 200 \<le> s \<and> s < 300"

text \<open>The two kinds of failing reply: server-side or network-level, and client-side.\<close>

definition transient_failure :: "'b reply \<Rightarrow> bool" where
  "transient_failure r = (case r of NoReply \<Rightarrow> True | Reply response \<Rightarrow> 500 \<le> status response)"

definition client_failure :: "'b reply \<Rightarrow> bool" where
  "client_failure r =
     (case r of NoReply \<Rightarrow> False | Reply response \<Rightarrow> 400 \<le> status response \<and> status response < 500)"

definition requests_of :: "event list \<Rightarrow> nat list" where
  "requests_of trace = concat (map (\<lambda>e. case e of Request i \<Rightarrow> [i] | Delay _ \<Rightarrow> []) trace)"

definition delays_of :: "event list \<Rightarrow> int list" where
  "delays_of trace = concat (map (\<lambda>e. case e of Request _ \<Rightarrow> [] | Delay d \<Rightarrow> [d]) trace)"

subsection \<open>fetchSpec\<close>

text \<open>
  The client holds the cache manager and the retry settings. The surroundings of one call
  are: the network (the reply to the \<open>i\<close>-th request for a URL sent with given headers), the
  three processing steps that follow a successful download (\<^verbatim>\<open>parseResponse\<close> and
  \<^verbatim>\<open>validateSpec\<close> can throw; \<^verbatim>\<open>resolveReferences\<close> catches every failure of the
  json-schema-ref-parser package and so always returns), whether \<^verbatim>\<open>JSON.stringify\<close> can
  write the document (it throws on one with a cycle), whether the disk accepts a write,
  and the instants at which the call reads the clock. The result is the thrown error or the
  document, with the cache manager and the trace of requests and delays.
\<close>

text \<open>
  The attempt count and the delay are integers (the command line reads them with
  \<^verbatim>\<open>parseInt\<close>); the error that \<^verbatim>\<open>fetchSpec\<close> throws is represented by its cause.
\<close>

record ('b, 'd) OpenAPIClient =
  cacheManager :: "'d CacheManager"
  requestTimeout :: int
  retryAttempts :: int
  retryDelay :: int

record ('b, 'r, 'd) surroundings =
  network :: "string \<Rightarrow> (string \<times> string) list \<Rightarrow> nat \<Rightarrow> 'b reply"
  parseResponse :: "'b AxiosResponse \<Rightarrow> string + 'r"
  resolveReferences :: "'r \<Rightarrow> 'd"
  validateSpec :: "'d \<Rightarrow> string + 'd"
  serialisable :: "'d \<Rightarrow> bool"
  diskWritable :: bool
  at_lookup :: int
  at_response :: int
  at_catch :: int

definition request_headers :: "string option \<Rightarrow> string option \<Rightarrow> (string \<times> string) list" where
  "request_headers etag_opt lastModified_opt =
     [(''Accept'', ''application/json, application/yaml, text/yaml, text/plain'')]
     @ (case etag_opt of Some e \<Rightarrow> if e \<noteq> [] then [(''If-None-Match'', e)] else [] | None \<Rightarrow> [])
     @ (case lastModified_opt of
          Some m \<Rightarrow> if m \<noteq> [] then [(''If-Modified-Since'', m)] else [] | None \<Rightarrow> [])"

text \<open>The body of the \<^verbatim>\<open>try\<close> block after the download: \<open>Inl\<close> is what it throws.\<close>

definition process_response ::
  "('b, 'r, 'd) surroundings \<Rightarrow> 'd CacheManager \<Rightarrow> string \<Rightarrow> 'b AxiosResponse
     \<Rightarrow> ('b client_error + 'd) \<times> 'd CacheManager" where
  "process_response w cm u response =
     (let (cached, cm1) =
            (if status response = 304 then CacheManager_get cm (at_response w) u else (None, cm))
      in case cached of
           Some c \<Rightarrow> (Inr (spec c), cm1)
         | None \<Rightarrow>
             (case parseResponse w response of
                Inl msg \<Rightarrow> (Inl (ProcessingError msg), cm1)
              | Inr raw \<Rightarrow>
                  (case validateSpec w (resolveReferences w raw) of
                     Inl msg \<Rightarrow> (Inl (ProcessingError msg), cm1)
                   | Inr resolvedSpec \<Rightarrow>
                       if serialisable w resolvedSpec
                       then (Inr resolvedSpec,
                             CacheManager_set cm1 (at_response w) (diskWritable w) u resolvedSpec
                               (map_of (resp_headers response) ''etag'')
                               (map_of (resp_headers response) ''last-modified''))
                       else (Inl (ProcessingError ''Converting circular structure to JSON''),
                             cm1))))"

definition fetchSpec ::
  "('b, 'r, 'd) surroundings \<Rightarrow> ('b, 'd) OpenAPIClient \<Rightarrow> string \<Rightarrow> bool
     \<Rightarrow> ('b client_error + 'd) \<times> 'd CacheManager \<times> event list" where
  "fetchSpec w client u forceRefresh =
     (let (cached, cm1) =
            (if \<not> forceRefresh then CacheManager_get (cacheManager client) (at_lookup w) u
             else (None, cacheManager client))
      in case cached of
           Some c \<Rightarrow> (Inr (spec c), cm1, [])
         | None \<Rightarrow>
             (let (etag_opt, cm2) = CacheManager_getEtag cm1 (at_lookup w) u;
                  (lastModified_opt, cm3) = CacheManager_getLastModified cm2 (at_lookup w) u;
                  headers = request_headers etag_opt lastModified_opt;
                  (fetched, trace) =
                    fetchWithRetry (retryAttempts client) (retryDelay client)
                      validateStatus_fetchSpec (network w u headers);
                  (outcome, cm4) =
                    (case fetched of
                       Inl error \<Rightarrow> (Inl error, cm3)
                     | Inr response \<Rightarrow> process_response w cm3 u response)
              in case outcome of
                   Inr document \<Rightarrow> (Inr document, cm4, trace)
                 | Inl error \<Rightarrow>
                     (let (fallback, cm5) = CacheManager_get cm4 (at_catch w) u in
                      case fallback of
                        Some c \<Rightarrow> (Inr (spec c), cm5, trace)
                      | None \<Rightarrow> (Inl error, cm5, trace))))"

subsection \<open>Sample stores, networks and clients\<close>

definition demo_cache :: "string CacheManager" where
  "demo_cache =
     CacheManager_set (CacheManager_new ''/cache'' 1 1 (\<lambda>u. u) (\<lambda>e. length (spec e)) (\<lambda>p. None))
       0 True ''http://api'' ''doc'' (Some ''v1'') None"

definition demo_entry :: "string CacheEntry" where
  "demo_entry = \<lparr>spec = ''doc'', etag = Some ''v1'', lastModified = None, timestamp = 0, url = ''http://api''\<rparr>"

definition zero_ttl_cache :: "string CacheManager" where
  "zero_ttl_cache = CacheManager_new ''/cache'' 0 1 (\<lambda>u. u) (\<lambda>e. length (spec e)) (\<lambda>p. None)"

definition always_503 :: "nat \<Rightarrow> unit reply" where
  "always_503 i = Reply \<lparr>status = 503, resp_headers = [], data = ()\<rparr>"

definition then_404 :: "nat \<Rightarrow> unit reply" where
  "then_404 i = (if i = 1 then Reply \<lparr>status = 404, resp_headers = [], data = ()\<rparr> else NoReply)"

definition offline_at :: "int \<Rightarrow> int \<Rightarrow> (unit, string, string) surroundings" where
  "offline_at t0 t1 =
     \<lparr>network = (\<lambda>u h i. NoReply), parseResponse = (\<lambda>r. Inl ''unparsable''),
      resolveReferences = (\<lambda>r. r), validateSpec = (\<lambda>d. Inr d),
      serialisable = (\<lambda>d. True), diskWritable = True,
      at_lookup = t0, at_response = t1, at_catch = t1\<rparr>"

definition demo_client :: "(unit, string) OpenAPIClient" where
  "demo_client =
     \<lparr>cacheManager = demo_cache, requestTimeout = 30000, retryAttempts = 3, retryDelay = 1000\<rparr>"

text \<open>A store whose write to the disk failed: the memory tier alone holds the entry.\<close>

definition memory_cache :: "string CacheManager" where
  "memory_cache =
     CacheManager_set (CacheManager_new ''/cache'' 1 1 (\<lambda>u. u) (\<lambda>e. length (spec e)) (\<lambda>p. None))
       0 False ''http://api'' ''doc'' (Some ''v1'') None"

definition memory_client :: "(unit, string) OpenAPIClient" where
  "memory_client =
     \<lparr>cacheManager = memory_cache, requestTimeout = 30000, retryAttempts = 3, retryDelay = 1000\<rparr>"

section \<open>Request validation (src/tools/validate-request.ts)\<close>

subsection \<open>Values, schemas and the document\<close>

text \<open>
  Request data is JSON as \<^verbatim>\<open>JSON.parse\<close> builds it. A number \<open>JNum q\<close> is a finite double, \<open>q\<close>
  its exact value; strings are lists of characters, their length the length of the list; an
  object is the list of its own keys with their values, in the order \<^verbatim>\<open>Object.keys\<close> gives
  them, and it inherits from \<^verbatim>\<open>Object.prototype\<close>. Reading an inherited name gives a value
  that is not JSON: one of the built-in functions, \<open>JFunction\<close> with the name it was read
  under, or, for \<^verbatim>\<open>__proto__\<close>, the prototype object itself. \<^verbatim>\<open>undefined\<close> is the \<open>None\<close> of an
  option.
\<close>

datatype json =
    JNull
  | JBool bool
  | JNum rat
  | JStr string
  | JArr "json list"
  | JObj "(string \<times> json) list"
  | JFunction string
  | JObjectPrototype

text \<open>
  The \<^verbatim>\<open>Schema\<close> interface: the reference, the constraints that the validator reads, and the
  two fields that hold the sub-schemas of array items and of object properties.
\<close>

datatype Schema = Schema
  (schema_ref: "string option")
  (schema_type: "string option")
  (multipleOf: "rat option")
  (maximum: "rat option")
  (exclusiveMaximum: "bool option")
  (minimum: "rat option")
  (exclusiveMinimum: "bool option")
  (maxLength: "rat option")
  (minLength: "rat option")
  (pattern: "string option")
  (maxItems: "rat option")
  (minItems: "rat option")
  (uniqueItems: "bool option")
  (maxProperties: "rat option")
  (minProperties: "rat option")
  (required: "string list option")
  (schema_enum: "json list option")
  (items: "Schema option")
  (properties: "(string \<times> Schema) list option")

record Parameter =
  param_name :: string
  param_in :: string
  param_required :: "bool option"
  param_deprecated :: "bool option"
  param_allowEmptyValue :: "bool option"
  param_schema :: "Schema option"

record MediaType =
  media_schema :: "Schema option"

record RequestBody =
  body_required :: "bool option"
  body_content :: "(string \<times> MediaType) list option"

record Operation =
  op_parameters :: "Parameter list option"
  op_requestBody :: "RequestBody option"
  op_deprecated :: "bool option"

text \<open>
  A path item: its operations under the names they are declared with, and its other
  members, of which \<^verbatim>\<open>execute\<close> reads the parameters and, when the method names one of them,
  the truthiness (\<open>pathItem_servers\<close> tells whether the array is there).
\<close>

record PathItem =
  pathItem_ref :: "string option"
  pathItem_summary :: "string option"
  pathItem_description :: "string option"
  pathItem_servers :: bool
  pathItem_parameters :: "Parameter list option"
  pathItem_operations :: "(string \<times> Operation) list"

text \<open>
  \<^verbatim>\<open>resolveRef\<close> walks the document as an untyped tree along a JSON pointer and casts what it
  reaches to \<^verbatim>\<open>Schema\<close>. A node of that tree is an object or an array, with the schema it is
  when read as one and the members that \<^verbatim>\<open>segment in current\<close> finds in it, own and inherited,
  or a value whose \<^verbatim>\<open>typeof\<close> is not \<^verbatim>\<open>'object'\<close>, of which only the truthiness matters.
\<close>

datatype node = Node Schema "(string \<times> node) list" | Leaf bool

record OpenAPISpec =
  paths :: "(string \<times> PathItem) list"
  document_tree :: node

record ValidationError =
  location :: string
  field :: string
  message :: string

record ValidationResult =
  valid :: bool
  errors :: "ValidationError list"
  warnings :: "string list"

record ValidateRequestArgs =
  path :: "string option"
  http_method :: "string option"
  params :: "(string \<times> json) list option"
  headers :: "(string \<times> json) list option"
  body :: "json option"

datatype js_error = Error string | TypeError | SyntaxError

text \<open>
  What the JavaScript runtime contributes and the model leaves open: the decimal text of a
  number; the regular expression engine (\<open>None\<close> when the pattern does not compile and
  \<^verbatim>\<open>new RegExp\<close> throws); \<^verbatim>\<open>String.prototype.toLowerCase\<close>, which follows the Unicode tables;
  the text of a built-in function; the names that \<^verbatim>\<open>Array.prototype\<close> holds; and, for a
  built-in function inherited under the first name, whether it has a truthy member of the
  second name.
\<close>

record js_runtime =
  numberToString :: "rat \<Rightarrow> string"
  regExpTest :: "string \<Rightarrow> string \<Rightarrow> bool option"
  toLowerCase :: "string \<Rightarrow> string"
  functionToString :: "string \<Rightarrow> string"
  arrayPrototypeNames :: "string list"
  builtinHas :: "string \<Rightarrow> string \<Rightarrow> bool"

subsection \<open>JavaScript primitives\<close>

text \<open>
  On a string of ASCII characters \<^verbatim>\<open>toLowerCase\<close> is fixed by the language: the letters A to
  Z go to a to z and every other character is left as it is. \<open>lowers_ascii\<close> asks this much of
  a runtime and nothing about other strings.
\<close>

definition case_pairs :: "(char \<times> char) list" where
  "case_pairs = zip ''ABCDEFGHIJKLMNOPQRSTUVWXYZ'' ''abcdefghijklmnopqrstuvwxyz''"

definition lower_char :: "char \<Rightarrow> char" where
  "lower_char c = (case map_of case_pairs c of Some l \<Rightarrow> l | None \<Rightarrow> c)"

definition ascii_lower :: "string \<Rightarrow> string" where
  "ascii_lower s = map lower_char s"

definition is_ascii :: "string \<Rightarrow> bool" where
  "is_ascii s \<longleftrightarrow> list_all (\<lambda>c. \<not> digit7 c) s"

definition lowers_ascii :: "js_runtime \<Rightarrow> bool" where
  "lowers_ascii rt \<longleftrightarrow> (\<forall>s. is_ascii s \<longrightarrow> toLowerCase rt s = ascii_lower s)"

text \<open>
  Equality up to letter case, said without any lowering function: two strings of the same
  length whose characters at each position are the same, or the capital and the small form
  of one letter.
\<close>

definition same_letter :: "char \<Rightarrow> char \<Rightarrow> bool" where
  "same_letter c d \<longleftrightarrow> c = d \<or> (c, d) \<in> set case_pairs \<or> (d, c) \<in> set case_pairs"

definition equal_up_to_case :: "string \<Rightarrow> string \<Rightarrow> bool" where
  "equal_up_to_case a b \<longleftrightarrow> list_all2 same_letter a b"

text \<open>The decimal text of a natural number, as in the index names of an array.\<close>

fun decimal :: "nat \<Rightarrow> string" where
  "decimal n =
     (if n < 10 then [''0123456789'' ! n]
      else decimal (n div 10) @ [''0123456789'' ! (n mod 10)])"

definition quoted :: "string \<Rightarrow> string" where
  "quoted s = CHR 0x27 # s @ [CHR 0x27]"

fun join_with :: "string \<Rightarrow> string list \<Rightarrow> string" where
  "join_with sep [] = []"
| "join_with sep [x] = x"
| "join_with sep (x # y # ys) = x @ sep @ join_with sep (y # ys)"

fun split_on :: "char \<Rightarrow> string \<Rightarrow> string list" where
  "split_on c [] = [] # []"
| "split_on c (x # xs) =
     (if x = c then [] # split_on c xs
      else (case split_on c xs of w # ws \<Rightarrow> (x # w) # ws | [] \<Rightarrow> [x] # []))"

fun js_typeof :: "json \<Rightarrow> string" where
  "js_typeof JNull = ''object''"
| "js_typeof (JBool _) = ''boolean''"
| "js_typeof (JNum _) = ''number''"
| "js_typeof (JStr _) = ''string''"
| "js_typeof (JArr _) = ''object''"
| "js_typeof (JObj _) = ''object''"
| "js_typeof (JFunction _) = ''function''"
| "js_typeof JObjectPrototype = ''object''"

fun isArray :: "json \<Rightarrow> bool" where
  "isArray (JArr _) = True"
| "isArray _ = False"

fun is_primitive :: "json \<Rightarrow> bool" where
  "is_primitive (JArr _) = False"
| "is_primitive (JObj _) = False"
| "is_primitive (JFunction _) = False"
| "is_primitive JObjectPrototype = False"
| "is_primitive _ = True"

text \<open>\<^verbatim>\<open>String(v)\<close>, and \<^verbatim>\<open>Array.prototype.join\<close>, which writes \<^verbatim>\<open>null\<close> as the empty string.\<close>

fun js_String :: "js_runtime \<Rightarrow> json \<Rightarrow> string" where
  "js_String rt JNull = ''null''"
| "js_String rt (JBool b) = (if b then ''true'' else ''false'')"
| "js_String rt (JNum q) = numberToString rt q"
| "js_String rt (JStr s) = s"
| "js_String rt (JArr vs) =
     join_with '','' (map (\<lambda>v. if v = JNull then [] else js_String rt v) vs)"
| "js_String rt (JObj _) = ''[object Object]''"
| "js_String rt (JFunction name) = functionToString rt name"
| "js_String rt JObjectPrototype = ''[object Object]''"

definition js_join :: "js_runtime \<Rightarrow> string \<Rightarrow> json list \<Rightarrow> string" where
  "js_join rt sep vs = join_with sep (map (\<lambda>v. if v = JNull then [] else js_String rt v) vs)"

text \<open>
  \<^verbatim>\<open>Array.prototype.includes\<close> and \<^verbatim>\<open>Set\<close> compare by SameValueZero: primitives by value,
  objects, arrays and functions by identity, and no two values parsed from JSON are the same
  object, nor is any of them a built-in.
\<close>

definition array_includes :: "json list \<Rightarrow> json \<Rightarrow> bool" where
  "array_includes vs v \<longleftrightarrow> is_primitive v \<and> List.member vs v"

definition set_size :: "json list \<Rightarrow> nat" where
  "set_size vs = length (remdups (filter is_primitive vs)) + length (filter (\<lambda>v. \<not> is_primitive v) vs)"

definition isInteger :: "rat \<Rightarrow> bool" where
  "isInteger q \<longleftrightarrow> of_int \<lfloor>q\<rfloor> = q"

text \<open>
  \<^verbatim>\<open>value % m !== 0\<close>. The remainder of two finite doubles is computed without rounding: it
  is the exact remainder of their exact values, so it is \<open>0\<close> just when the exact quotient
  \<open>q / m\<close> is an integer (for the doubles nearest to 0.3 and 0.1 it is not). The remainder by
  0 is NaN, which differs from 0.
\<close>

definition remainder_nonzero :: "rat \<Rightarrow> rat \<Rightarrow> bool" where
  "remainder_nonzero q m \<longleftrightarrow> m = 0 \<or> \<not> isInteger (q / m)"

subsection \<open>Properties of objects\<close>

text \<open>
  The names that \<^verbatim>\<open>Object.prototype\<close> holds, which \<^verbatim>\<open>name in obj\<close> finds in every object that
  inherits from it. \<open>get_property\<close> is \<^verbatim>\<open>obj[name]\<close> for an object parsed from JSON, \<open>None\<close>
  when \<^verbatim>\<open>name in obj\<close> is false: an own value, the prototype under \<^verbatim>\<open>__proto__\<close>, or a
  built-in function.
\<close>

definition object_prototype_names :: "string list" where
  "object_prototype_names =
     [''constructor'', ''__defineGetter__'', ''__defineSetter__'', ''hasOwnProperty'',
      ''__lookupGetter__'', ''__lookupSetter__'', ''isPrototypeOf'', ''propertyIsEnumerable'',
      ''toString'', ''valueOf'', ''__proto__'', ''toLocaleString'']"

definition from_Object_prototype :: "json \<Rightarrow> string \<Rightarrow> json option" where
  "from_Object_prototype proto_value name =
     (if name = ''__proto__'' then Some proto_value
      else if name \<in> set object_prototype_names then Some (JFunction name)
      else None)"

definition get_property :: "(string \<times> json) list \<Rightarrow> string \<Rightarrow> json option" where
  "get_property members name =
     (case map_of members name of
        Some v \<Rightarrow> Some v
      | None \<Rightarrow> from_Object_prototype JObjectPrototype name)"

definition has_property :: "(string \<times> json) list \<Rightarrow> string \<Rightarrow> bool" where
  "has_property members name \<longleftrightarrow> get_property members name \<noteq> None"

text \<open>
  The object that \<^verbatim>\<open>validateHeaderParameters\<close> builds by assignment: its own properties and
  what it inherits from. It starts as \<^verbatim>\<open>{}\<close>, inheriting from \<^verbatim>\<open>Object.prototype\<close>; an
  assignment to \<^verbatim>\<open>__proto__\<close> that reaches the setter of \<^verbatim>\<open>Object.prototype\<close> replaces the
  prototype by the object, array or \<^verbatim>\<open>null\<close> assigned and ignores any other value.
\<close>

datatype prototype = InheritsObjectPrototype | InheritsNothing | InheritsValue json

record js_object =
  own_properties :: "(string \<times> json) list"
  prototype_of :: prototype

definition array_own :: "json list \<Rightarrow> string \<Rightarrow> json option" where
  "array_own xs name =
     (if name = ''length'' then Some (JNum (of_nat (length xs)))
      else (case find (\<lambda>i. decimal i = name) [0..<length xs] of
              Some i \<Rightarrow> Some (xs ! i)
            | None \<Rightarrow> None))"

definition inherited_from :: "js_runtime \<Rightarrow> prototype \<Rightarrow> string \<Rightarrow> json option" where
  "inherited_from rt proto name =
     (case proto of
        InheritsObjectPrototype \<Rightarrow> from_Object_prototype JObjectPrototype name
      | InheritsNothing \<Rightarrow> None
      | InheritsValue pv \<Rightarrow>
          (case pv of
             JObj members \<Rightarrow>
               (case map_of members name of
                  Some v \<Rightarrow> Some v
                | None \<Rightarrow> from_Object_prototype pv name)
           | JArr xs \<Rightarrow>
               (case array_own xs name of
                  Some v \<Rightarrow> Some v
                | None \<Rightarrow>
                    if name \<in> set (arrayPrototypeNames rt) then Some (JFunction name)
                    else from_Object_prototype pv name)
           | _ \<Rightarrow> None))"

definition js_lookup :: "js_runtime \<Rightarrow> js_object \<Rightarrow> string \<Rightarrow> json option" where
  "js_lookup rt obj name =
     (case map_of (own_properties obj) name of
        Some v \<Rightarrow> Some v
      | None \<Rightarrow> inherited_from rt (prototype_of obj) name)"

text \<open>
  \<^verbatim>\<open>obj[name] = v\<close>. Every name but \<^verbatim>\<open>__proto__\<close> becomes or stays an own property. So does
  \<^verbatim>\<open>__proto__\<close> when the object has it as an own property already, when the object it
  inherits from has it as one (\<^verbatim>\<open>JSON.parse\<close> makes it one), or when the object inherits
  nothing; otherwise the assignment reaches the setter.
\<close>

definition shadows_proto :: "js_object \<Rightarrow> bool" where
  "shadows_proto obj \<longleftrightarrow>
     map_of (own_properties obj) ''__proto__'' \<noteq> None \<or>
     (case prototype_of obj of
        InheritsNothing \<Rightarrow> True
      | InheritsValue (JObj members) \<Rightarrow> map_of members ''__proto__'' \<noteq> None
      | _ \<Rightarrow> False)"

definition set_prototype :: "js_object \<Rightarrow> json \<Rightarrow> js_object" where
  "set_prototype obj v =
     (case v of
        JObj _ \<Rightarrow> obj\<lparr>prototype_of := InheritsValue v\<rparr>
      | JArr _ \<Rightarrow> obj\<lparr>prototype_of := InheritsValue v\<rparr>
      | JNull \<Rightarrow> obj\<lparr>prototype_of := InheritsNothing\<rparr>
      | JObjectPrototype \<Rightarrow> obj\<lparr>prototype_of := InheritsObjectPrototype\<rparr>
      | _ \<Rightarrow> obj)"

definition js_set :: "js_object \<Rightarrow> string \<Rightarrow> json \<Rightarrow> js_object" where
  "js_set obj name v =
     (if name \<noteq> ''__proto__'' \<or> shadows_proto obj
      then obj\<lparr>own_properties := AList.update name v (own_properties obj)\<rparr>
      else set_prototype obj v)"

subsection \<open>validateAgainstSchema\<close>

text \<open>
  The validator is the sequence of the source's blocks, each giving the messages it pushes.
  Two blocks can throw: the string block when the pattern does not compile, and the object
  block when the value is \<^verbatim>\<open>null\<close> (whose \<^verbatim>\<open>typeof\<close> is \<^verbatim>\<open>'object'\<close>), at
  \<^verbatim>\<open>requiredProp in value\<close> or at \<^verbatim>\<open>Object.keys(value)\<close>. In the object block
  \<^verbatim>\<open>requiredProp in value\<close> finds inherited names too, and \<^verbatim>\<open>Object.keys\<close> counts the own
  enumerable properties, of which \<^verbatim>\<open>Object.prototype\<close> has none.
\<close>

definition actualType :: "json \<Rightarrow> string" where
  "actualType v = (if isArray v then ''array'' else js_typeof v)"

definition type_validation :: "json \<Rightarrow> Schema \<Rightarrow> string list" where
  "type_validation v schema =
     (case schema_type schema of
        Some t \<Rightarrow>
          if t \<noteq> [] \<and> t \<noteq> actualType v
          then [''Expected type '' @ quoted t @ '' but got '' @ quoted (actualType v)]
          else []
      | None \<Rightarrow> [])"

definition string_validations :: "js_runtime \<Rightarrow> json \<Rightarrow> Schema \<Rightarrow> js_error + string list" where
  "string_validations rt v schema =
     (case v of
        JStr s \<Rightarrow>
          if schema_type schema = Some ''string'' then
            (let too_short =
                   (case minLength schema of
                      Some m \<Rightarrow>
                        if of_nat (length s) < m
                        then [''String length is less than minimum '' @ numberToString rt m]
                        else []
                    | None \<Rightarrow> []);
                 too_long =
                   (case maxLength schema of
                      Some m \<Rightarrow>
                        if of_nat (length s) > m
                        then [''String length exceeds maximum '' @ numberToString rt m]
                        else []
                    | None \<Rightarrow> [])
             in case pattern schema of
                  Some p \<Rightarrow>
                    if p \<noteq> [] then
                      (case regExpTest rt p s of
                         None \<Rightarrow> Inl SyntaxError
                       | Some matches \<Rightarrow>
                           Inr (too_short @ too_long @
                                (if \<not> matches then [''String does not match pattern: '' @ p] else [])))
                    else Inr (too_short @ too_long)
                | None \<Rightarrow> Inr (too_short @ too_long))
          else Inr []
      | _ \<Rightarrow> Inr [])"

definition number_validations :: "js_runtime \<Rightarrow> json \<Rightarrow> Schema \<Rightarrow> string list" where
  "number_validations rt v schema =
     (case v of
        JNum q \<Rightarrow>
          if schema_type schema = Some ''number'' \<or> schema_type schema = Some ''integer'' then
            (if schema_type schema = Some ''integer'' \<and> \<not> isInteger q
             then [''Expected integer but got decimal number''] else [])
            @ (case minimum schema of
                 Some m \<Rightarrow>
                   if exclusiveMinimum schema = Some True \<and> q \<le> m
                   then [''Value must be greater than '' @ numberToString rt m]
                   else if exclusiveMinimum schema \<noteq> Some True \<and> q < m
                   then [''Value must be greater than or equal to '' @ numberToString rt m]
                   else []
               | None \<Rightarrow> [])
            @ (case maximum schema of
                 Some m \<Rightarrow>
                   if exclusiveMaximum schema = Some True \<and> q \<ge> m
                   then [''Value must be less than '' @ numberToString rt m]
                   else if exclusiveMaximum schema \<noteq> Some True \<and> q > m
                   then [''Value must be less than or equal to '' @ numberToString rt m]
                   else []
               | None \<Rightarrow> [])
            @ (case multipleOf schema of
                 Some m \<Rightarrow>
                   if remainder_nonzero q m
                   then [''Value must be a multiple of '' @ numberToString rt m]
                   else []
               | None \<Rightarrow> [])
          else []
      | _ \<Rightarrow> [])"

definition array_validations :: "js_runtime \<Rightarrow> json \<Rightarrow> Schema \<Rightarrow> string list" where
  "array_validations rt v schema =
     (case v of
        JArr vs \<Rightarrow>
          if schema_type schema = Some ''array'' then
            (case minItems schema of
               Some m \<Rightarrow>
                 if of_nat (length vs) < m
                 then [''Array has fewer items than minimum '' @ numberToString rt m]
                 else []
             | None \<Rightarrow> [])
            @ (case maxItems schema of
                 Some m \<Rightarrow>
                   if of_nat (length vs) > m
                   then [''Array has more items than maximum '' @ numberToString rt m]
                   else []
               | None \<Rightarrow> [])
            @ (if uniqueItems schema = Some True \<and> set_size vs \<noteq> length vs
               then [''Array items must be unique''] else [])
          else []
      | _ \<Rightarrow> [])"

definition enum_validation :: "js_runtime \<Rightarrow> json \<Rightarrow> Schema \<Rightarrow> string list" where
  "enum_validation rt v schema =
     (case schema_enum schema of
        Some allowed \<Rightarrow>
          if \<not> array_includes allowed v
          then [''Value must be one of: '' @ js_join rt '', '' allowed]
          else []
      | None \<Rightarrow> [])"

definition object_validations :: "js_runtime \<Rightarrow> json \<Rightarrow> Schema \<Rightarrow> js_error + string list" where
  "object_validations rt v schema =
     (if schema_type schema = Some ''object'' \<and> js_typeof v = ''object'' \<and> \<not> isArray v then
        (case (case v of
                 JObj members \<Rightarrow> Some members
               | JObjectPrototype \<Rightarrow> Some []
               | _ \<Rightarrow> None) of
           Some members \<Rightarrow>
             Inr ((case required schema of
                     Some names \<Rightarrow>
                       map (\<lambda>requiredProp. ''Missing required property: '' @ requiredProp)
                         (filter (\<lambda>requiredProp. \<not> has_property members requiredProp) names)
                   | None \<Rightarrow> [])
                  @ (case minProperties schema of
                       Some m \<Rightarrow>
                         if of_nat (length members) < m
                         then [''Object has fewer properties than minimum '' @ numberToString rt m]
                         else []
                     | None \<Rightarrow> [])
                  @ (case maxProperties schema of
                       Some m \<Rightarrow>
                         if of_nat (length members) > m
                         then [''Object has more properties than maximum '' @ numberToString rt m]
                         else []
                     | None \<Rightarrow> []))
         | None \<Rightarrow> Inl TypeError)
      else Inr [])"

definition validateAgainstSchema ::
  "js_runtime \<Rightarrow> json \<Rightarrow> Schema \<Rightarrow> string \<Rightarrow> js_error + string list" where
  "validateAgainstSchema rt v schema fieldName =
     (case string_validations rt v schema of
        Inl thrown \<Rightarrow> Inl thrown
      | Inr string_errors \<Rightarrow>
          (case object_validations rt v schema of
             Inl thrown \<Rightarrow> Inl thrown
           | Inr object_errors \<Rightarrow>
               Inr (type_validation v schema @ string_errors @ number_validations rt v schema
                    @ array_validations rt v schema @ enum_validation rt v schema
                    @ object_errors)))"

subsection \<open>The parameter validators\<close>

text \<open>
  Each validator is a loop over the declared parameters that pushes onto the result it is
  given; the body of the loop is a function of its own, and a throw inside it ends the loop.
  \<^verbatim>\<open>param.name in providedParams\<close> is \<open>has_property\<close>, which finds inherited names too, and
  \<^verbatim>\<open>providedParams[param.name]\<close> is \<open>get_property\<close>.
\<close>

definition push_error :: "ValidationResult \<Rightarrow> string \<Rightarrow> string \<Rightarrow> string \<Rightarrow> ValidationResult" where
  "push_error result loc fld msg =
     result\<lparr>errors := errors result @ [\<lparr>location = loc, field = fld, message = msg\<rparr>]\<rparr>"

definition push_errors :: "ValidationResult \<Rightarrow> string \<Rightarrow> string \<Rightarrow> string list \<Rightarrow> ValidationResult" where
  "push_errors result loc fld msgs =
     result\<lparr>errors := errors result @ map (\<lambda>error. \<lparr>location = loc, field = fld, message = error\<rparr>) msgs\<rparr>"

definition push_warning :: "ValidationResult \<Rightarrow> string \<Rightarrow> ValidationResult" where
  "push_warning result msg = result\<lparr>warnings := warnings result @ [msg]\<rparr>"

definition validatePathParameter ::
  "js_runtime \<Rightarrow> Parameter \<Rightarrow> (string \<times> json) list \<Rightarrow> ValidationResult
     \<Rightarrow> js_error + ValidationResult" where
  "validatePathParameter rt param providedParams result =
     (let result1 =
            (if param_required param \<noteq> Some False \<and> \<not> has_property providedParams (param_name param)
             then push_error result ''path'' (param_name param)
                    (''Required path parameter '' @ quoted (param_name param) @ '' is missing'')
             else result)
      in case get_property providedParams (param_name param) of
           None \<Rightarrow> Inr result1
         | Some v \<Rightarrow>
             (case (case param_schema param of
                      Some schema \<Rightarrow>
                        (case validateAgainstSchema rt v schema (param_name param) of
                           Inl thrown \<Rightarrow> Inl thrown
                         | Inr validationErrors \<Rightarrow>
                             Inr (push_errors result1 ''path'' (param_name param) validationErrors))
                    | None \<Rightarrow> Inr result1) of
                Inl thrown \<Rightarrow> Inl thrown
              | Inr result2 \<Rightarrow>
                  Inr (if param_deprecated param = Some True
                       then push_warning result2
                              (''Path parameter '' @ quoted (param_name param) @ '' is deprecated'')
                       else result2)))"

fun validatePathParameters ::
  "js_runtime \<Rightarrow> Parameter list \<Rightarrow> (string \<times> json) list \<Rightarrow> string \<Rightarrow> ValidationResult
     \<Rightarrow> js_error + ValidationResult" where
  "validatePathParameters rt [] providedParams p result = Inr result"
| "validatePathParameters rt (param # parameters) providedParams p result =
     (case validatePathParameter rt param providedParams result of
        Inl thrown \<Rightarrow> Inl thrown
      | Inr result' \<Rightarrow> validatePathParameters rt parameters providedParams p result')"

definition validateQueryParameter ::
  "js_runtime \<Rightarrow> Parameter \<Rightarrow> (string \<times> json) list \<Rightarrow> ValidationResult
     \<Rightarrow> js_error + ValidationResult" where
  "validateQueryParameter rt param providedParams result =
     (let result1 =
            (if param_required param = Some True \<and> \<not> has_property providedParams (param_name param)
             then push_error result ''query'' (param_name param)
                    (''Required query parameter '' @ quoted (param_name param) @ '' is missing'')
             else result)
      in case get_property providedParams (param_name param) of
           None \<Rightarrow> Inr result1
         | Some v \<Rightarrow>
             (case (case param_schema param of
                      Some schema \<Rightarrow>
                        (case validateAgainstSchema rt v schema (param_name param) of
                           Inl thrown \<Rightarrow> Inl thrown
                         | Inr validationErrors \<Rightarrow>
                             Inr (push_errors result1 ''query'' (param_name param) validationErrors))
                    | None \<Rightarrow> Inr result1) of
                Inl thrown \<Rightarrow> Inl thrown
              | Inr result2 \<Rightarrow>
                  (let result3 =
                         (if param_deprecated param = Some True
                          then push_warning result2
                                 (''Query parameter '' @ quoted (param_name param) @ '' is deprecated'')
                          else result2)
                   in Inr (if param_allowEmptyValue param \<noteq> Some True \<and> v = JStr []
                           then push_error result3 ''query'' (param_name param)
                                  (''Query parameter '' @ quoted (param_name param) @ '' cannot be empty'')
                           else result3))))"

fun validateQueryParameters ::
  "js_runtime \<Rightarrow> Parameter list \<Rightarrow> (string \<times> json) list \<Rightarrow> ValidationResult
     \<Rightarrow> js_error + ValidationResult" where
  "validateQueryParameters rt [] providedParams result = Inr result"
| "validateQueryParameters rt (param # parameters) providedParams result =
     (case validateQueryParameter rt param providedParams result of
        Inl thrown \<Rightarrow> Inl thrown
      | Inr result' \<Rightarrow> validateQueryParameters rt parameters providedParams result')"

text \<open>
  \<^verbatim>\<open>Object.keys(providedHeaders).reduce(...)\<close>: the headers assigned one by one, under their
  lower-case names, to an object that starts empty; a later key that lower-cases to a name
  already present replaces the value stored under it.
\<close>

definition providedHeadersLower :: "js_runtime \<Rightarrow> (string \<times> json) list \<Rightarrow> js_object" where
  "providedHeadersLower rt providedHeaders =
     foldl (\<lambda>acc (key, v). js_set acc (toLowerCase rt key) v)
       \<lparr>own_properties = [], prototype_of = InheritsObjectPrototype\<rparr> providedHeaders"

definition validateHeaderParameter ::
  "js_runtime \<Rightarrow> Parameter \<Rightarrow> (string \<times> json) list \<Rightarrow> ValidationResult
     \<Rightarrow> js_error + ValidationResult" where
  "validateHeaderParameter rt param providedHeaders result =
     (let headerName = toLowerCase rt (param_name param);
          lowered = providedHeadersLower rt providedHeaders;
          result1 =
            (if param_required param = Some True \<and> js_lookup rt lowered headerName = None
             then push_error result ''header'' (param_name param)
                    (''Required header '' @ quoted (param_name param) @ '' is missing'')
             else result)
      in case js_lookup rt lowered headerName of
           None \<Rightarrow> Inr result1
         | Some v \<Rightarrow>
             (case (case param_schema param of
                      Some schema \<Rightarrow>
                        (case validateAgainstSchema rt v schema (param_name param) of
                           Inl thrown \<Rightarrow> Inl thrown
                         | Inr validationErrors \<Rightarrow>
                             Inr (push_errors result1 ''header'' (param_name param) validationErrors))
                    | None \<Rightarrow> Inr result1) of
                Inl thrown \<Rightarrow> Inl thrown
              | Inr result2 \<Rightarrow>
                  Inr (if param_deprecated param = Some True
                       then push_warning result2
                              (''Header '' @ quoted (param_name param) @ '' is deprecated'')
                       else result2)))"

fun validateHeaderParameters ::
  "js_runtime \<Rightarrow> Parameter list \<Rightarrow> (string \<times> json) list \<Rightarrow> ValidationResult
     \<Rightarrow> js_error + ValidationResult" where
  "validateHeaderParameters rt [] providedHeaders result = Inr result"
| "validateHeaderParameters rt (param # parameters) providedHeaders result =
     (case validateHeaderParameter rt param providedHeaders result of
        Inl thrown \<Rightarrow> Inl thrown
      | Inr result' \<Rightarrow> validateHeaderParameters rt parameters providedHeaders result')"

subsection \<open>The request body\<close>

fun navigate :: "string list \<Rightarrow> node \<Rightarrow> node option" where
  "navigate [] current = Some current"
| "navigate (segment # rest) (Node _ members) =
     (case map_of members segment of Some child \<Rightarrow> navigate rest child | None \<Rightarrow> None)"
| "navigate (segment # rest) (Leaf _) = None"

definition empty_schema :: Schema where
  "empty_schema = Schema None None None None None None None None None None None None None None
                    None None None None None"

text \<open>
  The result of \<^verbatim>\<open>resolveRef\<close> as its caller tests it: \<open>None\<close> when what it returns is falsy
  (\<^verbatim>\<open>null\<close> or a falsy value of the document); a truthy value that is not an object has none
  of the fields of a schema.
\<close>

definition resolveRef :: "string \<Rightarrow> OpenAPISpec \<Rightarrow> Schema option" where
  "resolveRef ref doc =
     (if take 2 ref \<noteq> ''#/'' then None
      else (case navigate (split_on CHR ''/'' (drop 2 ref)) (document_tree doc) of
              Some (Node schema _) \<Rightarrow> Some schema
            | Some (Leaf truthy) \<Rightarrow> if truthy then Some empty_schema else None
            | None \<Rightarrow> None))"

definition validate_body ::
  "js_runtime \<Rightarrow> json \<Rightarrow> Schema \<Rightarrow> ValidationResult \<Rightarrow> js_error + ValidationResult" where
  "validate_body rt b schema result =
     (case validateAgainstSchema rt b schema ''body'' of
        Inl thrown \<Rightarrow> Inl thrown
      | Inr validationErrors \<Rightarrow> Inr (push_errors result ''body'' ''body'' validationErrors))"

definition validateRequestBody ::
  "js_runtime \<Rightarrow> RequestBody \<Rightarrow> json option \<Rightarrow> OpenAPISpec \<Rightarrow> ValidationResult
     \<Rightarrow> js_error + ValidationResult" where
  "validateRequestBody rt requestBody providedBody doc result =
     (if body_required requestBody = Some True \<and> (providedBody = None \<or> providedBody = Some JNull)
      then Inr (push_error result ''body'' ''body'' ''Request body is required but not provided'')
      else
        (case providedBody of
           None \<Rightarrow> Inr result
         | Some b \<Rightarrow>
             if b = JNull then Inr result
             else
               (case body_content requestBody of
                  None \<Rightarrow> Inr result
                | Some content \<Rightarrow>
                    (case map_of content ''application/json'' of
                       None \<Rightarrow> Inr result
                     | Some jsonContent \<Rightarrow>
                         (case media_schema jsonContent of
                            None \<Rightarrow> Inr result
                          | Some declared \<Rightarrow>
                              (case schema_ref declared of
                                 None \<Rightarrow> validate_body rt b declared result
                               | Some r \<Rightarrow>
                                   if r = [] then validate_body rt b declared result
                                   else
                                     (case resolveRef r doc of
                                        None \<Rightarrow>
                                          Inr (push_warning result
                                                 (''Could not resolve schema reference: '' @ r))
                                      | Some schema \<Rightarrow> validate_body rt b schema result)))))))"

subsection \<open>execute\<close>

text \<open>
  The loaded document, the \<^verbatim>\<open>spec\<close> argument of the source, is called \<open>doc\<close> here.
  \<open>validateArgs\<close> is the check of the base class for the two required fields;
  \<open>validate_operation\<close> is the part of \<^verbatim>\<open>execute\<close> that follows the lookup of the path item
  and of the operation.

  \<^verbatim>\<open>spec.paths[path]\<close> gives a declared path item or, for a name that the object of the paths
  inherits, a built-in: the prototype for \<^verbatim>\<open>__proto__\<close>, a function for the others. All that
  \<^verbatim>\<open>execute\<close> asks of the value is that it is truthy. \<^verbatim>\<open>pathItem[methodLower]\<close> likewise gives
  a declared operation or another truthy member, own or inherited, which \<^verbatim>\<open>execute\<close> then
  reads as an operation that declares nothing: \<open>no_operation\<close>. The \<^verbatim>\<open>__proto__\<close> of
  \<^verbatim>\<open>Object.prototype\<close> is \<^verbatim>\<open>null\<close>, and no built-in has parameters.
\<close>

datatype path_item_value = DeclaredItem PathItem | BuiltinItem string

definition paths_get :: "OpenAPISpec \<Rightarrow> string \<Rightarrow> path_item_value option" where
  "paths_get doc p =
     (case map_of (paths doc) p of
        Some pathItem \<Rightarrow> Some (DeclaredItem pathItem)
      | None \<Rightarrow> if p \<in> set object_prototype_names then Some (BuiltinItem p) else None)"

definition no_operation :: Operation where
  "no_operation = \<lparr>op_parameters = None, op_requestBody = None, op_deprecated = None\<rparr>"

definition truthy_string :: "string option \<Rightarrow> bool" where
  "truthy_string s \<longleftrightarrow> s \<noteq> None \<and> s \<noteq> Some []"

definition other_member :: "PathItem \<Rightarrow> string \<Rightarrow> bool" where
  "other_member pathItem name \<longleftrightarrow>
     (if name = ''parameters'' then pathItem_parameters pathItem \<noteq> None
      else if name = ''servers'' then pathItem_servers pathItem
      else if name = ''$ref'' then truthy_string (pathItem_ref pathItem)
      else if name = ''summary'' then truthy_string (pathItem_summary pathItem)
      else if name = ''description'' then truthy_string (pathItem_description pathItem)
      else name \<in> set object_prototype_names)"

definition item_get :: "js_runtime \<Rightarrow> path_item_value \<Rightarrow> string \<Rightarrow> Operation option" where
  "item_get rt item name =
     (case item of
        DeclaredItem pathItem \<Rightarrow>
          (case map_of (pathItem_operations pathItem) name of
             Some operation \<Rightarrow> Some operation
           | None \<Rightarrow> if other_member pathItem name then Some no_operation else None)
      | BuiltinItem builtin \<Rightarrow>
          if builtin = ''__proto__''
          then (if name \<in> set object_prototype_names \<and> name \<noteq> ''__proto__''
                then Some no_operation else None)
          else (if builtinHas rt builtin name then Some no_operation else None))"

definition item_parameters :: "path_item_value \<Rightarrow> Parameter list" where
  "item_parameters item =
     (case item of
        DeclaredItem pathItem \<Rightarrow> (case pathItem_parameters pathItem of Some ps \<Rightarrow> ps | None \<Rightarrow> [])
      | BuiltinItem _ \<Rightarrow> [])"

definition validateArgs ::
  "ValidateRequestArgs option \<Rightarrow> js_error + string \<times> string \<times> ValidateRequestArgs" where
  "validateArgs args_opt =
     (case args_opt of
        None \<Rightarrow> Inl (Error ''Invalid arguments provided'')
      | Some args \<Rightarrow>
          (case path args of
             None \<Rightarrow> Inl (Error ''Missing required field: path'')
           | Some p \<Rightarrow>
               (case http_method args of
                  None \<Rightarrow> Inl (Error ''Missing required field: method'')
                | Some m \<Rightarrow> Inr (p, m, args))))"

definition and_then :: "'e + 'a \<Rightarrow> ('a \<Rightarrow> 'e + 'b) \<Rightarrow> 'e + 'b" where
  "and_then r f = (case r of Inl thrown \<Rightarrow> Inl thrown | Inr x \<Rightarrow> f x)"

definition validate_operation ::
  "js_runtime \<Rightarrow> string \<Rightarrow> ValidateRequestArgs \<Rightarrow> OpenAPISpec \<Rightarrow> path_item_value \<Rightarrow> Operation
     \<Rightarrow> js_error + ValidationResult" where
  "validate_operation rt p args doc pathItem operation =
     (let providedParams = (case params args of Some ps \<Rightarrow> ps | None \<Rightarrow> []);
          providedHeaders = (case headers args of Some hs \<Rightarrow> hs | None \<Rightarrow> []);
          result = \<lparr>valid = True, errors = [], warnings = []\<rparr>;
          allParameters =
            item_parameters pathItem
            @ (case op_parameters operation of Some ps \<Rightarrow> ps | None \<Rightarrow> [])
      in and_then
           (validatePathParameters rt (filter (\<lambda>q. param_in q = ''path'') allParameters)
              providedParams p result)
        (\<lambda>result1. and_then
           (validateQueryParameters rt (filter (\<lambda>q. param_in q = ''query'') allParameters)
              providedParams result1)
        (\<lambda>result2. and_then
           (validateHeaderParameters rt (filter (\<lambda>q. param_in q = ''header'') allParameters)
              providedHeaders result2)
        (\<lambda>result3. and_then
           (case op_requestBody operation of
              Some requestBody \<Rightarrow> validateRequestBody rt requestBody (body args) doc result3
            | None \<Rightarrow>
                Inr (if body args \<noteq> None \<and> body args \<noteq> Some JNull
                     then push_warning result3
                            ''Request body provided but not expected for this endpoint''
                     else result3))
        (\<lambda>result4.
           let result5 =
                 (if op_deprecated operation = Some True
                  then push_warning result4 ''This endpoint is deprecated''
                  else result4)
           in Inr (result5\<lparr>valid := (errors result5 = [])\<rparr>))))))"

definition execute ::
  "js_runtime \<Rightarrow> ValidateRequestArgs option \<Rightarrow> OpenAPISpec option \<Rightarrow> js_error + ValidationResult" where
  "execute rt args_opt doc_opt =
     (case doc_opt of
        None \<Rightarrow> Inl (Error ''No OpenAPI specification loaded'')
      | Some doc \<Rightarrow>
          and_then (validateArgs args_opt)
            (\<lambda>(p, m, args).
               case paths_get doc p of
                 None \<Rightarrow> Inl (Error (''Path not found: '' @ p))
               | Some pathItem \<Rightarrow>
                   (case item_get rt pathItem (toLowerCase rt m) of
                      None \<Rightarrow> Inl (Error (''Method '' @ m @ '' not found for path '' @ p))
                    | Some operation \<Rightarrow> validate_operation rt p args doc pathItem operation)))"

text \<open>
  A runtime for the samples, which hold ASCII strings only, print no number, compile no
  pattern and read no member of a built-in.
\<close>

definition plain_runtime :: js_runtime where
  "plain_runtime =
     \<lparr>numberToString = (\<lambda>q. ''#''), regExpTest = (\<lambda>pat s. Some True),
      toLowerCase = ascii_lower, functionToString = (\<lambda>name. ''function''),
      arrayPrototypeNames = [], builtinHas = (\<lambda>builtin name. False)\<rparr>"

definition string_schema :: Schema where
  "string_schema = Schema None (Some ''string'') None None None None None None None None None
                     None None None None None None None None"

definition integer_schema :: Schema where
  "integer_schema = Schema None (Some ''integer'') None None None None None None None None None
                      None None None None None None None None"

definition user_schema :: Schema where
  "user_schema = Schema None (Some ''object'') None None None None None None None None None None
                   None None None (Some [''email'', ''name'']) None None
                   (Some [(''email'', Schema None (Some ''string'') None None None None None None None
                                       None None None None None None None None None None),
                          (''name'', Schema None (Some ''string'') None None None None None None None
                                       None None None None None None None None None None)])"

definition users_post :: Operation where
  "users_post =
     \<lparr>op_parameters =
        Some [\<lparr>param_name = ''X-Request-ID'', param_in = ''header'',
               param_required = Some True, param_deprecated = None,
               param_allowEmptyValue = None, param_schema = None\<rparr>],
      op_requestBody =
        Some \<lparr>body_required = Some True,
              body_content = Some [(''application/json'', \<lparr>media_schema = Some user_schema\<rparr>)]\<rparr>,
      op_deprecated = None\<rparr>"

definition users_item :: PathItem where
  "users_item =
     \<lparr>pathItem_ref = None, pathItem_summary = None, pathItem_description = None,
      pathItem_servers = False, pathItem_parameters = None,
      pathItem_operations = [(''post'', users_post)]\<rparr>"

definition users_spec :: OpenAPISpec where
  "users_spec = \<lparr>paths = [(''/users'', users_item)], document_tree = Node empty_schema []\<rparr>"

definition number_schema :: Schema where
  "number_schema = Schema None (Some ''number'') None None None None None None None None None
                     None None None None None None None None"

definition request_id_param :: Parameter where
  "request_id_param =
     \<lparr>param_name = ''X-Request-ID'', param_in = ''header'', param_required = Some True,
      param_deprecated = None, param_allowEmptyValue = None, param_schema = Some number_schema\<rparr>"

definition id_param :: Parameter where
  "id_param =
     \<lparr>param_name = ''id'', param_in = ''path'', param_required = None,
      param_deprecated = None, param_allowEmptyValue = None, param_schema = None\<rparr>"

definition no_result :: ValidationResult where
  "no_result = \<lparr>valid = True, errors = [], warnings = []\<rparr>"

definition constructor_param :: Parameter where
  "constructor_param =
     \<lparr>param_name = ''constructor'', param_in = ''path'', param_required = Some True,
      param_deprecated = None, param_allowEmptyValue = None, param_schema = None\<rparr>"

definition constructor_header :: Parameter where
  "constructor_header =
     \<lparr>param_name = ''Constructor'', param_in = ''header'', param_required = Some True,
      param_deprecated = None, param_allowEmptyValue = None, param_schema = None\<rparr>"

text \<open>
  A document with one operation that declares a parameter of each kind and a body, and a
  request that violates all four.
\<close>

definition order_schema :: Schema where
  "order_schema = Schema None (Some ''object'') None None None None None None None None None None
                    None None None (Some [''item'']) None None None"

definition orders_put :: Operation where
  "orders_put =
     \<lparr>op_parameters =
        Some [\<lparr>param_name = ''limit'', param_in = ''query'', param_required = Some True,
               param_deprecated = None, param_allowEmptyValue = None,
               param_schema = Some integer_schema\<rparr>,
              \<lparr>param_name = ''X-Api-Key'', param_in = ''header'', param_required = Some True,
               param_deprecated = None, param_allowEmptyValue = None,
               param_schema = Some string_schema\<rparr>],
      op_requestBody =
        Some \<lparr>body_required = Some True,
              body_content = Some [(''application/json'', \<lparr>media_schema = Some order_schema\<rparr>)]\<rparr>,
      op_deprecated = None\<rparr>"

definition orders_item :: PathItem where
  "orders_item =
     \<lparr>pathItem_ref = None, pathItem_summary = None, pathItem_description = None,
      pathItem_servers = False,
      pathItem_parameters =
        Some [\<lparr>param_name = ''id'', param_in = ''path'', param_required = None,
               param_deprecated = None, param_allowEmptyValue = None,
               param_schema = Some integer_schema\<rparr>],
      pathItem_operations = [(''put'', orders_put)]\<rparr>"

definition orders_spec :: OpenAPISpec where
  "orders_spec = \<lparr>paths = [(''/orders/{id}'', orders_item)], document_tree = Node empty_schema []\<rparr>"

definition bad_order :: ValidateRequestArgs where
  "bad_order =
     \<lparr>path = Some ''/orders/{id}'', http_method = Some ''PUT'',
      params = Some [(''id'', JStr ''abc''), (''limit'', JStr [])],
      headers = Some [(''x-api-key'', JNum 7)],
      body = Some (JObj [])\<rparr>"

section \<open>Properties of the cache\<close>

lemma find_holds: "find P xs = Some x \<Longrightarrow> P x"
  by (induction xs) (auto split: if_splits)

lemma lru_get_Some:
  "lru_get c now k = (Some e, c') \<Longrightarrow> lru_peek c k = Some e \<and> lru_peek c' k = Some e"
  by (auto simp: lru_get_def lru_peek_def split: option.splits if_splits dest: find_holds)

lemma lru_get_None:
  "lru_get c now k = (None, c') \<Longrightarrow> lru_peek c' k = None"
  by (auto simp: lru_get_def lru_peek_def lru_delete_def find_None_iff split: option.splits if_splits)

lemma lru_peek_delete: "lru_peek (lru_delete c k) k = None"
  by (simp add: lru_peek_def lru_delete_def find_None_iff)

lemma lru_peek_set:
  "lru_peek (lru_set c now k v) k = (if sizeCalculation c v \<le> lru_maxSize c then Some v else None)"
  by (simp add: lru_set_def lru_peek_def lru_delete_def Let_def find_None_iff)

lemma lru_get_after_set_fits:
  "sizeCalculation c v \<le> lru_maxSize c \<Longrightarrow> now' - now \<le> lru_ttl c \<Longrightarrow>
   fst (lru_get (lru_set c now k v) now' k) = Some v"
  by (simp add: lru_get_def lru_set_def Let_def)

lemma find_filter_other: "find (\<lambda>i. f i = k) (filter (\<lambda>i. f i \<noteq> k) xs) = None"
  by (simp add: find_None_iff)

lemma lru_get_after_delete: "lru_get (lru_delete c k) now' k = (None, lru_delete c k)"
  by (simp add: lru_get_def lru_delete_def find_filter_other)

text \<open>The constructor gives both tiers the same TTL, and no operation changes either.\<close>

lemma ttl_agree_new:
  "lru_ttl (memoryCache (CacheManager_new dir ttlSeconds maxSizeMB hash sizeOf files))
   = ttl (CacheManager_new dir ttlSeconds maxSizeMB hash sizeOf files)"
  by (simp add: CacheManager_new_def)

lemma ttl_agree_set:
  "lru_ttl (memoryCache cm) = ttl cm \<Longrightarrow>
   lru_ttl (memoryCache (CacheManager_set cm now ok u s e lm))
   = ttl (CacheManager_set cm now ok u s e lm)"
  by (simp add: CacheManager_set_def lru_set_def lru_delete_def Let_def)

lemma ttl_agree_get:
  "lru_ttl (memoryCache cm) = ttl cm \<Longrightarrow>
   lru_ttl (memoryCache (snd (CacheManager_get cm now u))) = ttl (snd (CacheManager_get cm now u))"
  by (cases "lru_get (memoryCache cm) now u")
     (auto simp: CacheManager_get_def lru_get_def lru_set_def lru_delete_def Let_def
        split: option.splits if_splits disk_file.splits)

lemma demo_eval1: "fst (CacheManager_get demo_cache 999 ''http://api'') = Some demo_entry"
  by (simp add: demo_cache_def demo_entry_def CacheManager_get_def CacheManager_set_def CacheManager_new_def
      lru_get_def lru_set_def lru_delete_def getDiskCachePath_def Let_def)

lemma demo_stored: "stored demo_cache ''http://api'' e \<longleftrightarrow> e = demo_entry"
  by (auto simp add: demo_cache_def demo_entry_def stored_def lru_peek_def CacheManager_set_def CacheManager_new_def
      lru_get_def lru_set_def lru_delete_def getDiskCachePath_def Let_def)

text \<open>
  C4. \<open>get\<close> returns an entry only if it is fresh (\<open>now - timestamp < ttl\<close>), and the
  entry is one the store held; when every entry held for the URL has reached the TTL,
  \<open>get\<close> returns nothing; and \<open>get\<close> leaves no entry in the store that was not there
  before, so the timestamp of an entry is never refreshed by reading it.
\<close>

theorem get_fresh_only:
  "(\<forall>e. fst (CacheManager_get cm now u) = Some e \<longrightarrow>
        now - timestamp e < ttl cm \<and> stored cm u e)
   \<and> ((\<forall>e. stored cm u e \<longrightarrow> ttl cm \<le> now - timestamp e) \<longrightarrow>
        fst (CacheManager_get cm now u) = None)
   \<and> (\<forall>e'. stored (snd (CacheManager_get cm now u)) u e' \<longrightarrow> stored cm u e')"
proof -
  obtain m mc where g: "lru_get (memoryCache cm) now u = (m, mc)" by (cases "lru_get (memoryCache cm) now u")
  have a: "now - timestamp e < ttl cm \<and> stored cm u e" if "fst (CacheManager_get cm now u) = Some e" for e
    using that g lru_get_Some[of "memoryCache cm" now u _ mc]
    by (auto simp: CacheManager_get_def stored_def Let_def split: option.splits if_splits disk_file.splits)
  have b: "fst (CacheManager_get cm now u) = None" if "\<forall>e. stored cm u e \<longrightarrow> ttl cm \<le> now - timestamp e"
    using that g lru_get_Some[of "memoryCache cm" now u _ mc]
    by (auto simp: CacheManager_get_def stored_def Let_def split: option.splits if_splits disk_file.splits)
  have c: "stored cm u e'" if "stored (snd (CacheManager_get cm now u)) u e'" for e'
    using that g lru_get_Some[of "memoryCache cm" now u _ mc] lru_get_None[of "memoryCache cm" now u mc]
    by (auto simp: CacheManager_get_def stored_def Let_def getDiskCachePath_def lru_peek_delete lru_peek_set
        split: option.splits if_splits disk_file.splits)
  from a b c show ?thesis by blast
qed
theorem get_fresh_only_witness:
  "fst (CacheManager_get demo_cache 999 ''http://api'') = Some demo_entry
   \<and> 999 - timestamp demo_entry < ttl demo_cache
   \<and> ttl demo_cache \<le> 1000 - timestamp demo_entry
   \<and> fst (CacheManager_get demo_cache 1000 ''http://api'') = None
   \<and> stored (snd (CacheManager_get demo_cache 999 ''http://api'')) ''http://api'' demo_entry
   \<and> stored demo_cache ''http://api'' demo_entry"
proof -
  have t: "ttl demo_cache = 1000" "timestamp demo_entry = 0"
    by (simp_all add: demo_cache_def demo_entry_def CacheManager_set_def CacheManager_new_def Let_def)
  have s: "stored (snd (CacheManager_get demo_cache 999 ''http://api'')) ''http://api'' demo_entry"
    by (simp add: demo_cache_def demo_entry_def CacheManager_get_def CacheManager_set_def CacheManager_new_def
      lru_get_def lru_set_def lru_delete_def getDiskCachePath_def Let_def stored_def lru_peek_def)
  show ?thesis
    using get_fresh_only [of demo_cache 999 "''http://api''"]
      get_fresh_only [of demo_cache 1000 "''http://api''"] demo_eval1 demo_stored s t
    by auto
qed

text \<open>
  C8, as stated, fails for a TTL of 0 seconds (which the configuration schema admits): the entry
  is stale at the very instant it is written, and \<open>get\<close> right after \<open>set\<close> returns nothing.
\<close>

theorem set_get_zero_ttl_counterexample:
  "fst (CacheManager_get
          (CacheManager_set zero_ttl_cache 0 True ''http://api'' ''doc'' (Some ''v1'') None)
          0 ''http://api'') = None"
  by (simp add: zero_ttl_cache_def CacheManager_get_def CacheManager_set_def CacheManager_new_def
      lru_get_def lru_set_def lru_delete_def getDiskCachePath_def Let_def)

text \<open>
  C8, amended. While the entry just written is fresh (less than the TTL has elapsed since
  \<open>set\<close>) and one tier kept it (it fits the memory budget, or the disk write succeeded),
  \<open>get\<close> returns the document, etag and lastModified that were stored, with the time of the
  \<open>set\<close> as timestamp.
\<close>

theorem set_get_round_trip:
  assumes "now \<le> now'" and "now' - now < ttl cm"
    and "lru_ttl (memoryCache cm) = ttl cm"
    and "sizeCalculation (memoryCache cm)
           \<lparr>spec = s, etag = e, lastModified = lm, timestamp = now, url = u\<rparr>
           \<le> lru_maxSize (memoryCache cm) \<or> diskWriteOk"
  shows "fst (CacheManager_get (CacheManager_set cm now diskWriteOk u s e lm) now' u)
         = Some \<lparr>spec = s, etag = e, lastModified = lm, timestamp = now, url = u\<rparr>"
proof -
  let ?entry = "\<lparr>spec = s, etag = e, lastModified = lm, timestamp = now, url = u\<rparr>"
  let ?mc = "memoryCache cm"
  show ?thesis
  proof (cases "sizeCalculation ?mc ?entry \<le> lru_maxSize ?mc")
    case True
    with assms have "fst (lru_get (lru_set ?mc now u ?entry) now' u) = Some ?entry"
      by (intro lru_get_after_set_fits) simp_all
    with assms(2) show ?thesis
      by (cases "lru_get (lru_set ?mc now u ?entry) now' u")
         (simp add: CacheManager_get_def CacheManager_set_def Let_def)
  next
    case False
    with assms(4) have w: diskWriteOk by simp
    from False have "lru_set ?mc now u ?entry = lru_delete ?mc u"
      by (simp add: lru_set_def Let_def)
    with w assms(2) show ?thesis
      by (simp add: CacheManager_get_def CacheManager_set_def Let_def lru_get_after_delete
          getDiskCachePath_def)
  qed
qed

theorem set_get_round_trip_witness:
  "fst (CacheManager_get demo_cache 999 ''http://api'') = Some demo_entry
   \<and> (0::int) \<le> 999 \<and> 999 - 0 < ttl (CacheManager_new ''/cache'' 1 1 (\<lambda>u. u) (\<lambda>e. length (spec e)) (\<lambda>p. None) :: string CacheManager)"
  unfolding demo_cache_def demo_entry_def
  using set_get_round_trip [of 0 999 "CacheManager_new ''/cache'' 1 1 (\<lambda>u. u) (\<lambda>e. length (spec e)) (\<lambda>p. None)"
      "''doc''" "Some ''v1''" None "''http://api''" True]
  by (simp add: CacheManager_new_def)

section \<open>Properties of the retry loop\<close>

declare fetchWithRetry_from.simps [simp del]

lemma requests_of_simps [simp]:
  "requests_of [] = []"
  "requests_of (Request i # es) = i # requests_of es"
  "requests_of (Delay d # es) = requests_of es"
  "requests_of (xs @ ys) = requests_of xs @ requests_of ys"
  by (simp_all add: requests_of_def)

lemma delays_of_simps [simp]:
  "delays_of [] = []"
  "delays_of (Request i # es) = delays_of es"
  "delays_of (Delay d # es) = d # delays_of es"
  "delays_of (xs @ ys) = delays_of xs @ delays_of ys"
  by (simp_all add: delays_of_def)

lemma upt_cons: "a < m \<Longrightarrow> a # [Suc a..<m] = [a..<m]"
  by (simp add: upt_conv_Cons)

lemma delays_upt_cons:
  "a < m \<Longrightarrow> (rd::int) * 2 ^ a # map (\<lambda>i. rd * 2 ^ i) [Suc a..<m] = map (\<lambda>i. rd * 2 ^ i) [a..<m]"
  by (simp add: upt_conv_Cons)

text \<open>Shape of every run: requests are numbered consecutively, delays double.\<close>

lemma retry_trace_shape:
  "\<exists>m m'. m \<le> max a (nat (ra - 1)) \<and> m' \<le> max a (nat ra)
      \<and> delays_of (snd (fetchWithRetry_from ra rd vs net a le t))
          = delays_of t @ map (\<lambda>i. rd * 2 ^ i) [a..<m]
      \<and> requests_of (snd (fetchWithRetry_from ra rd vs net a le t))
          = requests_of t @ [a..<m']"
proof (induction ra rd vs net a le t rule: fetchWithRetry_from.induct)
  case (1 ra rd vs net a le t)
  show ?case
  proof (cases "int a < ra")
    case False
    then have "fetchWithRetry_from ra rd vs net a le t = (Inl le, t)"
      by (subst fetchWithRetry_from.simps) simp
    then show ?thesis
      by (intro exI[of _ a]) simp
  next
    case True
    show ?thesis
    proof (cases "axios_get vs (net a)")
      case (Inr response)
      with True have "fetchWithRetry_from ra rd vs net a le t = (Inr response, t @ [Request a])"
        by (subst fetchWithRetry_from.simps) simp
      with True show ?thesis
        by (intro exI[of _ a] exI[of _ "Suc a"]) (auto simp: max_def)
    next
      case (Inl err)
      show ?thesis
      proof (cases "is_client_error err")
        case True
        with Inl \<open>int a < ra\<close>
        have "fetchWithRetry_from ra rd vs net a le t = (Inl err, t @ [Request a])"
          by (subst fetchWithRetry_from.simps) simp
        with \<open>int a < ra\<close> show ?thesis
          by (intro exI[of _ a] exI[of _ "Suc a"]) (auto simp: max_def)
      next
        case False
        from "1.IH"[OF \<open>int a < ra\<close> Inl False]
        obtain m m' where ih:
          "m \<le> max (Suc a) (nat (ra - 1))" "m' \<le> max (Suc a) (nat ra)"
          "delays_of (snd (fetchWithRetry_from ra rd vs net (Suc a) err
             (t @ Request a # (if int a < ra - 1 then [Delay (rd * 2 ^ a)] else []))))
           = delays_of (t @ Request a # (if int a < ra - 1 then [Delay (rd * 2 ^ a)] else []))
             @ map (\<lambda>i. rd * 2 ^ i) [Suc a..<m]"
          "requests_of (snd (fetchWithRetry_from ra rd vs net (Suc a) err
             (t @ Request a # (if int a < ra - 1 then [Delay (rd * 2 ^ a)] else []))))
           = requests_of (t @ Request a # (if int a < ra - 1 then [Delay (rd * 2 ^ a)] else []))
             @ [Suc a..<m']"
          by blast
        have unfold: "fetchWithRetry_from ra rd vs net a le t =
            fetchWithRetry_from ra rd vs net (Suc a) err
              (t @ Request a # (if int a < ra - 1 then [Delay (rd * 2 ^ a)] else []))"
          using \<open>int a < ra\<close> Inl False by (subst fetchWithRetry_from.simps) simp
        have rq: "requests_of (snd (fetchWithRetry_from ra rd vs net a le t))
            = requests_of t @ [a..<max m' (Suc a)]"
          unfolding unfold ih(4)
          by (cases "Suc a < m'") (simp_all add: max_def upt_cons)
        have m'': "max m' (Suc a) \<le> max a (nat ra)"
          using ih(2) \<open>int a < ra\<close> by linarith
        show ?thesis
        proof (cases "int a < ra - 1")
          case True
          have "delays_of (snd (fetchWithRetry_from ra rd vs net a le t))
              = delays_of t @ map (\<lambda>i. rd * 2 ^ i) [a..<max m (Suc a)]"
            unfolding unfold ih(3) using True
            by (cases "Suc a < m") (simp_all add: max_def delays_upt_cons)
          moreover have "max m (Suc a) \<le> max a (nat (ra - 1))"
            using ih(1) True by linarith
          ultimately show ?thesis using rq m'' by blast
        next
          case False
          with ih(1) \<open>int a < ra\<close> have "m \<le> Suc a" by linarith
          then have "delays_of (snd (fetchWithRetry_from ra rd vs net a le t))
              = delays_of t @ map (\<lambda>i. rd * 2 ^ i) [a..<a]"
            unfolding unfold ih(3) using False by simp
          then show ?thesis using rq m'' by (intro exI[of _ a] exI[of _ "max m' (Suc a)"]) simp
        qed
      qed
    qed
  qed
qed

lemma status_policies_reject_errors:
  "\<forall>s. 400 \<le> s \<longrightarrow> \<not> validateStatus_fetchSpec s"
  "\<forall>s. 400 \<le> s \<longrightarrow> \<not> validateStatus_default s"
  by (simp_all add: validateStatus_fetchSpec_def validateStatus_default_def)

lemma transient_is_retried:
  "transient_failure r \<Longrightarrow> \<forall>s. 400 \<le> s \<longrightarrow> \<not> vs s \<Longrightarrow>
   \<exists>e. axios_get vs r = Inl e \<and> \<not> is_client_error e"
  by (auto simp: transient_failure_def axios_get_def split: reply.splits)

lemma client_is_thrown:
  "client_failure r \<Longrightarrow> \<forall>s. 400 \<le> s \<longrightarrow> \<not> vs s \<Longrightarrow>
   \<exists>e. axios_get vs r = Inl e \<and> is_client_error e"
  by (auto simp: client_failure_def axios_get_def split: reply.splits)

lemma retry_all_transient:
  assumes "\<forall>s. 400 \<le> s \<longrightarrow> \<not> vs s"
    and "\<forall>i. a \<le> i \<and> int i < ra \<longrightarrow> transient_failure (net i)"
  shows "isl (fst (fetchWithRetry_from ra rd vs net a le t))
       \<and> requests_of (snd (fetchWithRetry_from ra rd vs net a le t))
           = requests_of t @ [a..<nat ra]
       \<and> delays_of (snd (fetchWithRetry_from ra rd vs net a le t))
           = delays_of t @ map (\<lambda>i. rd * 2 ^ i) [a..<nat (ra - 1)]"
  using assms
proof (induction ra rd vs net a le t rule: fetchWithRetry_from.induct)
  case (1 ra rd vs net a le t)
  show ?case
  proof (cases "int a < ra")
    case False
    then have "fetchWithRetry_from ra rd vs net a le t = (Inl le, t)"
      by (subst fetchWithRetry_from.simps) simp
    with False show ?thesis by simp
  next
    case True
    with "1.prems" have "transient_failure (net a)" by simp
    with "1.prems"(1) obtain err where err: "axios_get vs (net a) = Inl err" "\<not> is_client_error err"
      using transient_is_retried by blast
    let ?t = "t @ Request a # (if int a < ra - 1 then [Delay (rd * 2 ^ a)] else [])"
    have unfold: "fetchWithRetry_from ra rd vs net a le t = fetchWithRetry_from ra rd vs net (Suc a) err ?t"
      using True err by (subst fetchWithRetry_from.simps) simp
    have ih: "isl (fst (fetchWithRetry_from ra rd vs net (Suc a) err ?t))
       \<and> requests_of (snd (fetchWithRetry_from ra rd vs net (Suc a) err ?t))
           = requests_of ?t @ [Suc a..<nat ra]
       \<and> delays_of (snd (fetchWithRetry_from ra rd vs net (Suc a) err ?t))
           = delays_of ?t @ map (\<lambda>i. rd * 2 ^ i) [Suc a..<nat (ra - 1)]"
      using "1.IH"[OF True err] "1.prems" by simp
    from True have an: "a < nat ra" by linarith
    show ?thesis
    proof (cases "int a < ra - 1")
      case True
      then have "a < nat (ra - 1)" by linarith
      with ih an True show ?thesis
        unfolding unfold by (simp add: upt_cons delays_upt_cons)
    next
      case False
      then have "[Suc a..<nat (ra - 1)] = []" "[a..<nat (ra - 1)] = []" by simp_all
      moreover from an False have "nat ra = Suc a" by linarith
      ultimately show ?thesis
        using ih False unfolding unfold by simp
    qed
  qed
qed

lemma retry_client_error:
  assumes "\<forall>s. 400 \<le> s \<longrightarrow> \<not> vs s"
    and "a \<le> k" and "int k < ra"
    and "\<forall>i. a \<le> i \<and> i < k \<longrightarrow> transient_failure (net i)"
    and "client_failure (net k)"
  shows "fst (fetchWithRetry_from ra rd vs net a le t) = axios_get vs (net k)
       \<and> requests_of (snd (fetchWithRetry_from ra rd vs net a le t))
           = requests_of t @ [a..<Suc k]
       \<and> delays_of (snd (fetchWithRetry_from ra rd vs net a le t))
           = delays_of t @ map (\<lambda>i. rd * 2 ^ i) [a..<k]"
  using assms
proof (induction ra rd vs net a le t rule: fetchWithRetry_from.induct)
  case (1 ra rd vs net a le t)
  from "1.prems" have True: "int a < ra" by linarith
  show ?case
  proof (cases "a = k")
    case True
    with "1.prems" obtain err where err: "axios_get vs (net a) = Inl err" "is_client_error err"
      using client_is_thrown by blast
    with \<open>int a < ra\<close> have "fetchWithRetry_from ra rd vs net a le t = (Inl err, t @ [Request a])"
      by (subst fetchWithRetry_from.simps) simp
    with True err show ?thesis by simp
  next
    case False
    with "1.prems" have ak: "a < k" by simp
    with "1.prems" have "transient_failure (net a)" by simp
    with "1.prems"(1) obtain err where err: "axios_get vs (net a) = Inl err" "\<not> is_client_error err"
      using transient_is_retried by blast
    from ak "1.prems"(3) have d: "int a < ra - 1" by linarith
    let ?t = "t @ [Request a, Delay (rd * 2 ^ a)]"
    have unfold: "fetchWithRetry_from ra rd vs net a le t = fetchWithRetry_from ra rd vs net (Suc a) err ?t"
      using True err d by (subst fetchWithRetry_from.simps) simp
    have "fst (fetchWithRetry_from ra rd vs net (Suc a) err ?t) = axios_get vs (net k)
       \<and> requests_of (snd (fetchWithRetry_from ra rd vs net (Suc a) err ?t))
           = requests_of ?t @ [Suc a..<Suc k]
       \<and> delays_of (snd (fetchWithRetry_from ra rd vs net (Suc a) err ?t))
           = delays_of ?t @ map (\<lambda>i. rd * 2 ^ i) [Suc a..<k]"
      using "1.IH"[OF True err] "1.prems" ak d by simp
    with ak show ?thesis
      unfolding unfold using upt_cons[of a "Suc k"] by (simp add: delays_upt_cons del: upt_Suc)
  qed
qed

lemma doubling_sorted: "0 < (rd::int) \<Longrightarrow> sorted_wrt (<) (map (\<lambda>i. rd * 2 ^ i) [a..<m])"
  by (simp add: sorted_wrt_map sorted_wrt_iff_nth_less)

text \<open>
  C5. Under a status policy that rejects every status from 400 on (both policies of the source
  do) and a positive base delay (the configuration schema demands at least 100 ms):
  at most \<open>retryAttempts\<close> requests are sent; the delays waited are strictly increasing;
  when every attempt meets a server-side (5xx) or network-level failure, all the attempts are
  made, with the delay \<open>retryDelay * 2 ^ i\<close> after attempt \<open>i\<close> except the last, and the call
  fails; and when attempt \<open>k\<close> meets a 4xx response after transient failures, that very
  rejection is thrown and no request follows attempt \<open>k\<close>.
\<close>

theorem fetchWithRetry_policy:
  assumes "\<forall>s. 400 \<le> s \<longrightarrow> \<not> vs s" and "0 < delay"
  shows "length (requests_of (snd (fetchWithRetry attempts delay vs net)))
           \<le> nat attempts
       \<and> sorted_wrt (<) (delays_of (snd (fetchWithRetry attempts delay vs net)))
       \<and> ((\<forall>i. int i < attempts \<longrightarrow> transient_failure (net i)) \<longrightarrow>
            isl (fst (fetchWithRetry attempts delay vs net))
            \<and> requests_of (snd (fetchWithRetry attempts delay vs net))
                = [0..<nat attempts]
            \<and> delays_of (snd (fetchWithRetry attempts delay vs net))
                = map (\<lambda>i. delay * 2 ^ i) [0..<nat (attempts - 1)])
       \<and> (\<forall>k. int k < attempts \<and> (\<forall>i<k. transient_failure (net i)) \<and> client_failure (net k) \<longrightarrow>
            fst (fetchWithRetry attempts delay vs net)
                = axios_get vs (net k)
            \<and> isl (axios_get vs (net k))
            \<and> requests_of (snd (fetchWithRetry attempts delay vs net))
                = [0..<Suc k]
            \<and> delays_of (snd (fetchWithRetry attempts delay vs net))
                = map (\<lambda>i. delay * 2 ^ i) [0..<k])"
proof -
  let ?run = "fetchWithRetry_from attempts delay vs net 0 Undefined []"
  obtain m m' where shape:
    "m' \<le> max 0 (nat attempts)"
    "delays_of (snd ?run) = delays_of [] @ map (\<lambda>i. delay * 2 ^ i) [0..<m]"
    "requests_of (snd ?run) = requests_of [] @ [0..<m']"
    using retry_trace_shape[of 0 attempts delay vs net Undefined "[]"] by blast
  have a: "length (requests_of (snd ?run)) \<le> nat attempts"
    using shape(1,3) by simp
  have b: "sorted_wrt (<) (delays_of (snd ?run))"
    using shape(2) doubling_sorted[OF assms(2)] by simp
  have c: "isl (fst ?run) \<and> requests_of (snd ?run) = [0..<nat attempts]
         \<and> delays_of (snd ?run) = map (\<lambda>i. delay * 2 ^ i) [0..<nat (attempts - 1)]"
    if "\<forall>i. int i < attempts \<longrightarrow> transient_failure (net i)"
    using retry_all_transient[OF assms(1), of 0 attempts net delay Undefined "[]"] that
    by simp
  have d: "fst ?run = axios_get vs (net k) \<and> isl (axios_get vs (net k))
         \<and> requests_of (snd ?run) = [0..<Suc k]
         \<and> delays_of (snd ?run) = map (\<lambda>i. delay * 2 ^ i) [0..<k]"
    if "int k < attempts \<and> (\<forall>i<k. transient_failure (net i)) \<and> client_failure (net k)" for k
    using retry_client_error[OF assms(1), of 0 k attempts net delay Undefined "[]"] that
      client_is_thrown[OF _ assms(1), of "net k"]
    by auto
  from a b c d show ?thesis unfolding fetchWithRetry_def by blast
qed

theorem fetchWithRetry_policy_witness:
  "requests_of (snd (fetchWithRetry 3 1000 validateStatus_fetchSpec always_503)) = [0, 1, 2]
   \<and> delays_of (snd (fetchWithRetry 3 1000 validateStatus_fetchSpec always_503)) = [1000, 2000]
   \<and> isl (fst (fetchWithRetry 3 1000 validateStatus_fetchSpec always_503))
   \<and> fst (fetchWithRetry 3 1000 validateStatus_fetchSpec then_404)
        = Inl (AxiosError (Some \<lparr>status = 404, resp_headers = [], data = ()\<rparr>))
   \<and> requests_of (snd (fetchWithRetry 3 1000 validateStatus_fetchSpec then_404)) = [0, 1]
   \<and> delays_of (snd (fetchWithRetry 3 1000 validateStatus_fetchSpec then_404)) = [1000]"
proof -
  have vs: "\<forall>s. 400 \<le> s \<longrightarrow> \<not> validateStatus_fetchSpec s"
    by (simp add: validateStatus_fetchSpec_def)
  have tr: "\<forall>i. int i < 3 \<longrightarrow> transient_failure (always_503 i)"
    by (simp add: transient_failure_def always_503_def)
  have cl: "int 1 < 3 \<and> (\<forall>i<1. transient_failure (then_404 i)) \<and> client_failure (then_404 1)"
    by (simp add: transient_failure_def client_failure_def then_404_def)
  have u: "[0..<3] = [0, Suc 0, 2]" "[0..<2] = [0, Suc 0]"
    by (simp_all add: upt_rec)
  from fetchWithRetry_policy[OF vs, of 1000 3 always_503] tr
  have 1: "requests_of (snd (fetchWithRetry 3 1000 validateStatus_fetchSpec always_503)) = [0, 1, 2]
   \<and> delays_of (snd (fetchWithRetry 3 1000 validateStatus_fetchSpec always_503)) = [1000, 2000]
   \<and> isl (fst (fetchWithRetry 3 1000 validateStatus_fetchSpec always_503))"
    by (simp add: u)
  have pos: "0 < (1000::int)" by simp
  from fetchWithRetry_policy[OF vs pos, of 3 then_404, THEN conjunct2, THEN conjunct2,
      THEN conjunct2, rule_format, of 1] cl
  have 2: "fst (fetchWithRetry 3 1000 validateStatus_fetchSpec then_404)
        = axios_get validateStatus_fetchSpec (then_404 1)
   \<and> requests_of (snd (fetchWithRetry 3 1000 validateStatus_fetchSpec then_404)) = [0, 1]
   \<and> delays_of (snd (fetchWithRetry 3 1000 validateStatus_fetchSpec then_404)) = [1000]"
    by (simp add: u)
  from 1 2 show ?thesis
    by (simp add: axios_get_def then_404_def validateStatus_fetchSpec_def)
qed

section \<open>Properties of fetchSpec\<close>

lemma get_returns_fresh:
  "fst (CacheManager_get cm now u) = Some e \<Longrightarrow> now - timestamp e < ttl cm \<and> stored cm u e"
  using lru_get_Some[of "memoryCache cm" now u]
  by (cases "lru_get (memoryCache cm) now u")
     (auto simp: CacheManager_get_def stored_def Let_def split: option.splits if_splits disk_file.splits)

lemma get_none_when_stale:
  "\<forall>e. stored cm u e \<longrightarrow> ttl cm \<le> now - timestamp e \<Longrightarrow> fst (CacheManager_get cm now u) = None"
  using lru_get_Some[of "memoryCache cm" now u]
  by (cases "lru_get (memoryCache cm) now u")
     (auto simp: CacheManager_get_def stored_def Let_def split: option.splits if_splits disk_file.splits)

lemma get_keeps_stored:
  "stored (snd (CacheManager_get cm now u)) u e \<Longrightarrow> stored cm u e"
  using lru_get_Some[of "memoryCache cm" now u] lru_get_None[of "memoryCache cm" now u]
  by (cases "lru_get (memoryCache cm) now u")
     (auto simp: CacheManager_get_def stored_def Let_def getDiskCachePath_def lru_peek_delete lru_peek_set
        split: option.splits if_splits disk_file.splits)

lemma get_keeps_ttl [simp]: "ttl (snd (CacheManager_get cm now u)) = ttl cm"
  by (cases "lru_get (memoryCache cm) now u")
     (auto simp: CacheManager_get_def Let_def split: option.splits if_splits disk_file.splits)

lemma get_finds_fresh_file:
  "disk cm (getDiskCachePath cm u) = Some (Readable e) \<Longrightarrow> now - timestamp e < ttl cm \<Longrightarrow>
   \<exists>e'. fst (CacheManager_get cm now u) = Some e'"
  by (cases "lru_get (memoryCache cm) now u")
     (auto simp: CacheManager_get_def Let_def split: option.splits if_splits disk_file.splits)

lemma lru_get_peek_sub: "lru_peek (snd (lru_get c now k)) k = Some e \<Longrightarrow> lru_peek c k = Some e"
  using lru_get_Some[of c now k] lru_get_None[of c now k]
  by (cases "lru_get c now k") (auto split: option.splits) 

lemma getEtag_keeps:
  "stored (snd (CacheManager_getEtag cm now u)) u e \<Longrightarrow> stored cm u e"
  "ttl (snd (CacheManager_getEtag cm now u)) = ttl cm"
  "disk (snd (CacheManager_getEtag cm now u)) = disk cm"
  "getDiskCachePath (snd (CacheManager_getEtag cm now u)) u = getDiskCachePath cm u"
  using lru_get_peek_sub[of "memoryCache cm" now u e]
  by (cases "lru_get (memoryCache cm) now u";
      auto simp: CacheManager_getEtag_def stored_def getDiskCachePath_def Let_def)+

lemma getLastModified_keeps:
  "stored (snd (CacheManager_getLastModified cm now u)) u e \<Longrightarrow> stored cm u e"
  "ttl (snd (CacheManager_getLastModified cm now u)) = ttl cm"
  "disk (snd (CacheManager_getLastModified cm now u)) = disk cm"
  "getDiskCachePath (snd (CacheManager_getLastModified cm now u)) u = getDiskCachePath cm u"
  using lru_get_peek_sub[of "memoryCache cm" now u e]
  by (cases "lru_get (memoryCache cm) now u";
      auto simp: CacheManager_getLastModified_def stored_def getDiskCachePath_def Let_def)+

lemma get_none_clears:
  "fst (CacheManager_get cm now u) = None \<Longrightarrow> \<not> stored (snd (CacheManager_get cm now u)) u e"
  using lru_get_Some[of "memoryCache cm" now u] lru_get_None[of "memoryCache cm" now u]
  by (cases "lru_get (memoryCache cm) now u")
     (auto simp: CacheManager_get_def stored_def Let_def getDiskCachePath_def lru_peek_delete
        split: option.splits if_splits disk_file.splits)

lemma lru_get_hit:
  "find (\<lambda>i. item_key i = k) (lru_items c) = Some i \<Longrightarrow> now - item_start i \<le> lru_ttl c \<Longrightarrow>
   lru_get c now k
     = (Some (item_value i),
        c\<lparr>lru_items := i\<lparr>item_start := now\<rparr> # filter (\<lambda>j. item_key j \<noteq> k) (lru_items c)\<rparr>)"
  by (simp add: lru_get_def)

lemma memory_holds_item:
  assumes "memory_holds cm u e t"
  obtains i where "find (\<lambda>i. item_key i = u) (lru_items (memoryCache cm)) = Some i"
    and "item_key i = u" and "item_value i = e" and "timestamp e \<le> item_start i"
    and "timestamp e \<le> t" and "lru_ttl (memoryCache cm) = ttl cm"
proof -
  from assms obtain i where i: "find (\<lambda>i. item_key i = u) (lru_items (memoryCache cm)) = Some i"
    and r: "item_value i = e" "timestamp e \<le> item_start i" "timestamp e \<le> t"
      "lru_ttl (memoryCache cm) = ttl cm"
    by (auto simp: memory_holds_def split: option.splits)
  from i have key: "item_key i = u" by (rule find_holds)
  show ?thesis by (rule that[OF i key r])
qed

lemma memory_holds_get:
  assumes "memory_holds cm u e t" and "now - timestamp e < ttl cm"
  shows "fst (CacheManager_get cm now u) = Some e"
proof -
  from assms(1) obtain i where i: "find (\<lambda>i. item_key i = u) (lru_items (memoryCache cm)) = Some i"
    "item_value i = e" "timestamp e \<le> item_start i" "lru_ttl (memoryCache cm) = ttl cm"
    by (auto elim: memory_holds_item)
  with assms(2) have "now - item_start i \<le> lru_ttl (memoryCache cm)" by simp
  from lru_get_hit[OF i(1) this] i(2) assms(2) show ?thesis
    by (simp add: CacheManager_get_def)
qed

lemma memory_holds_after_lru_get:
  assumes "memory_holds cm u e t" and "now - timestamp e < ttl cm" and "timestamp e \<le> now"
  shows "memory_holds (cm\<lparr>memoryCache := snd (lru_get (memoryCache cm) now u)\<rparr>) u e now"
proof -
  from assms(1) obtain i where i: "find (\<lambda>i. item_key i = u) (lru_items (memoryCache cm)) = Some i"
    "item_key i = u" "item_value i = e" "timestamp e \<le> item_start i"
    "lru_ttl (memoryCache cm) = ttl cm"
    by (auto elim: memory_holds_item)
  with assms(2) have "now - item_start i \<le> lru_ttl (memoryCache cm)" by simp
  from lru_get_hit[OF i(1) this] i(2,3,5) assms(3) show ?thesis
    by (simp add: memory_holds_def)
qed

lemma memory_holds_getEtag:
  "memory_holds cm u e t \<Longrightarrow> now - timestamp e < ttl cm \<Longrightarrow> timestamp e \<le> now \<Longrightarrow>
   memory_holds (snd (CacheManager_getEtag cm now u)) u e now"
  using memory_holds_after_lru_get[of cm u e t now]
  by (cases "lru_get (memoryCache cm) now u") (simp add: CacheManager_getEtag_def)

lemma memory_holds_getLastModified:
  "memory_holds cm u e t \<Longrightarrow> now - timestamp e < ttl cm \<Longrightarrow> timestamp e \<le> now \<Longrightarrow>
   memory_holds (snd (CacheManager_getLastModified cm now u)) u e now"
  using memory_holds_after_lru_get[of cm u e t now]
  by (cases "lru_get (memoryCache cm) now u") (simp add: CacheManager_getLastModified_def)

text \<open>
  The manager keeps its memory tier this way: the constructor starts with it, and \<open>set\<close>
  gives an entry that fits the budget an age that starts at its timestamp.
\<close>

lemma memory_holds_after_set:
  assumes "lru_ttl (memoryCache cm) = ttl cm"
    and "sizeCalculation (memoryCache cm)
           \<lparr>spec = s, etag = e, lastModified = lm, timestamp = now, url = u\<rparr>
           \<le> lru_maxSize (memoryCache cm)"
    and "now \<le> t"
  shows "memory_holds (CacheManager_set cm now diskWriteOk u s e lm) u
           \<lparr>spec = s, etag = e, lastModified = lm, timestamp = now, url = u\<rparr> t"
  using assms by (simp add: memory_holds_def CacheManager_set_def lru_set_def Let_def)

text \<open>On the failure path the result is decided by the lookups: the one at the start
  (skipped by a forced refresh) and the one in the catch block.\<close>

lemma fetchSpec_failure_path:
  assumes "\<forall>h. isl (fst (fetchWithRetry (retryAttempts client) (retryDelay client)
                          validateStatus_fetchSpec (network w u h)))"
  shows "\<exists>cm3 err. (\<forall>e. stored cm3 u e \<longrightarrow> stored (cacheManager client) u e)
           \<and> ttl cm3 = ttl (cacheManager client)
           \<and> (forceRefresh \<longrightarrow> disk cm3 (getDiskCachePath cm3 u)
               = disk (cacheManager client) (getDiskCachePath (cacheManager client) u))
           \<and> (\<forall>e. forceRefresh \<and> memory_holds (cacheManager client) u e (at_lookup w)
                   \<and> at_lookup w - timestamp e < ttl (cacheManager client)
                 \<longrightarrow> memory_holds cm3 u e (at_lookup w))
           \<and> (isl (fst (fetchSpec w client u forceRefresh)) \<longrightarrow>
                fst (snd (fetchSpec w client u forceRefresh))
                  = snd (CacheManager_get cm3 (at_catch w) u)
                \<and> fst (CacheManager_get cm3 (at_catch w) u) = None)
           \<and> fst (fetchSpec w client u forceRefresh)
               = (case (if forceRefresh then None
                        else fst (CacheManager_get (cacheManager client) (at_lookup w) u)) of
                    Some c \<Rightarrow> Inr (spec c)
                  | None \<Rightarrow>
                      (case fst (CacheManager_get cm3 (at_catch w) u) of
                         Some c \<Rightarrow> Inr (spec c) | None \<Rightarrow> Inl err))"
proof -
  let ?cm = "cacheManager client"
  let ?cm1 = "if forceRefresh then ?cm else snd (CacheManager_get ?cm (at_lookup w) u)"
  let ?cm2 = "snd (CacheManager_getEtag ?cm1 (at_lookup w) u)"
  let ?cm3 = "snd (CacheManager_getLastModified ?cm2 (at_lookup w) u)"
  let ?h = "request_headers (fst (CacheManager_getEtag ?cm1 (at_lookup w) u))
              (fst (CacheManager_getLastModified ?cm2 (at_lookup w) u))"
  let ?f = "fetchWithRetry (retryAttempts client) (retryDelay client)
              validateStatus_fetchSpec (network w u ?h)"
  from assms obtain err where err: "fst ?f = Inl err"
    by (metis isl_def)
  have "fst (fetchSpec w client u forceRefresh)
          = (case (if forceRefresh then None else fst (CacheManager_get ?cm (at_lookup w) u)) of
               Some c \<Rightarrow> Inr (spec c)
             | None \<Rightarrow>
                 (case fst (CacheManager_get ?cm3 (at_catch w) u) of
                    Some c \<Rightarrow> Inr (spec c) | None \<Rightarrow> Inl err))"
    using err
    by (cases forceRefresh; cases ?f; cases "CacheManager_get ?cm3 (at_catch w) u";
        cases "CacheManager_get ?cm (at_lookup w) u")
       (simp_all add: fetchSpec_def Let_def split_beta split: option.splits)
  moreover have "\<forall>e. stored ?cm3 u e \<longrightarrow> stored ?cm u e"
    using getEtag_keeps(1) getLastModified_keeps(1) get_keeps_stored
    by (metis (full_types))
  moreover have "ttl ?cm3 = ttl ?cm"
    by (simp add: getEtag_keeps getLastModified_keeps)
  moreover have "forceRefresh \<longrightarrow> disk ?cm3 (getDiskCachePath ?cm3 u) = disk ?cm (getDiskCachePath ?cm u)"
    by (simp add: getEtag_keeps getLastModified_keeps)
  moreover have "memory_holds ?cm3 u e (at_lookup w)"
    if "forceRefresh \<and> memory_holds ?cm u e (at_lookup w) \<and> at_lookup w - timestamp e < ttl ?cm" for e
  proof -
    from that have f: forceRefresh and h: "memory_holds ?cm u e (at_lookup w)"
      and fresh: "at_lookup w - timestamp e < ttl ?cm" by simp_all
    from h have le: "timestamp e \<le> at_lookup w" by (auto elim: memory_holds_item)
    from h fresh le have h2: "memory_holds ?cm2 u e (at_lookup w)"
      using f memory_holds_getEtag[of ?cm u e "at_lookup w" "at_lookup w"] by simp
    have "ttl ?cm2 = ttl ?cm" using f by (simp add: getEtag_keeps)
    with h2 fresh le show ?thesis
      using memory_holds_getLastModified[of ?cm2 u e "at_lookup w" "at_lookup w"] by simp
  qed
  moreover have "isl (fst (fetchSpec w client u forceRefresh)) \<longrightarrow>
      fst (snd (fetchSpec w client u forceRefresh)) = snd (CacheManager_get ?cm3 (at_catch w) u)
      \<and> fst (CacheManager_get ?cm3 (at_catch w) u) = None"
    using err
    by (cases forceRefresh; cases ?f; cases "CacheManager_get ?cm3 (at_catch w) u";
        cases "CacheManager_get ?cm (at_lookup w) u")
       (simp_all add: fetchSpec_def Let_def split_beta split: option.splits)
  ultimately show ?thesis by blast
qed

text \<open>
  C1, amended. When the download fails whatever the request headers, and the clock does not
  run backwards, the lookup that decides is the one in the catch block for a forced refresh
  and the one at the start otherwise, and:
  a document that \<open>fetchSpec\<close> returns is the document of an entry that the store held and that
  was fresh (younger than the TTL) at the deciding lookup;
  when the memory tier holds an entry that is fresh then, \<open>fetchSpec\<close> returns its document;
  when the disk tier holds an entry that is fresh then, \<open>fetchSpec\<close> returns instead of
  throwing;
  when every entry that the store holds for the URL has reached the TTL by then, the failure
  is thrown and the stale entries are evicted: after the call the store holds no entry for
  the URL, in either tier.
\<close>

theorem fetchSpec_fallback_fresh_only:
  assumes "\<forall>h. isl (fst (fetchWithRetry (retryAttempts client) (retryDelay client)
                          validateStatus_fetchSpec (network w u h)))"
    and "at_lookup w \<le> at_catch w"
  shows "(\<forall>d. fst (fetchSpec w client u forceRefresh) = Inr d \<longrightarrow>
            (\<exists>e. stored (cacheManager client) u e \<and> spec e = d
                 \<and> (if forceRefresh then at_catch w else at_lookup w) - timestamp e
                     < ttl (cacheManager client)))
       \<and> (\<forall>e. memory_holds (cacheManager client) u e (at_lookup w)
                 \<and> (if forceRefresh then at_catch w else at_lookup w) - timestamp e
                     < ttl (cacheManager client)
            \<longrightarrow> fst (fetchSpec w client u forceRefresh) = Inr (spec e))
       \<and> ((\<exists>e. disk (cacheManager client) (getDiskCachePath (cacheManager client) u)
                   = Some (Readable e)
                 \<and> (if forceRefresh then at_catch w else at_lookup w) - timestamp e
                     < ttl (cacheManager client))
            \<longrightarrow> \<not> isl (fst (fetchSpec w client u forceRefresh)))
       \<and> ((\<forall>e. stored (cacheManager client) u e
                 \<longrightarrow> ttl (cacheManager client)
                       \<le> (if forceRefresh then at_catch w else at_lookup w) - timestamp e)
            \<longrightarrow> isl (fst (fetchSpec w client u forceRefresh))
                \<and> (\<forall>e. \<not> stored (fst (snd (fetchSpec w client u forceRefresh))) u e))"
proof -
  let ?cm = "cacheManager client"
  let ?T = "if forceRefresh then at_catch w else at_lookup w"
  from fetchSpec_failure_path[OF assms(1), of forceRefresh]
  obtain cm3 err where k:
    "\<forall>e. stored cm3 u e \<longrightarrow> stored ?cm u e"
    "ttl cm3 = ttl ?cm"
    "forceRefresh \<longrightarrow> disk cm3 (getDiskCachePath cm3 u) = disk ?cm (getDiskCachePath ?cm u)"
    "fst (fetchSpec w client u forceRefresh)
       = (case (if forceRefresh then None else fst (CacheManager_get ?cm (at_lookup w) u)) of
            Some c \<Rightarrow> Inr (spec c)
          | None \<Rightarrow>
              (case fst (CacheManager_get cm3 (at_catch w) u) of
                 Some c \<Rightarrow> Inr (spec c) | None \<Rightarrow> Inl err))"
    and m: "\<forall>e. forceRefresh \<and> memory_holds ?cm u e (at_lookup w)
                   \<and> at_lookup w - timestamp e < ttl ?cm
                 \<longrightarrow> memory_holds cm3 u e (at_lookup w)"
    and after: "isl (fst (fetchSpec w client u forceRefresh)) \<longrightarrow>
                fst (snd (fetchSpec w client u forceRefresh))
                  = snd (CacheManager_get cm3 (at_catch w) u)
                \<and> fst (CacheManager_get cm3 (at_catch w) u) = None"
    by blast
  have a: "\<exists>e. stored ?cm u e \<and> spec e = d \<and> ?T - timestamp e < ttl ?cm"
    if "fst (fetchSpec w client u forceRefresh) = Inr d" for d
  proof (cases "if forceRefresh then None else fst (CacheManager_get ?cm (at_lookup w) u)")
    case (Some c)
    with that k(4) have "spec c = d" "\<not> forceRefresh" "fst (CacheManager_get ?cm (at_lookup w) u) = Some c"
      by (auto split: if_splits)
    with get_returns_fresh[of ?cm "at_lookup w" u c] show ?thesis by auto
  next
    case None
    with that k(4) obtain c where c: "fst (CacheManager_get cm3 (at_catch w) u) = Some c" "spec c = d"
      by (auto split: option.splits)
    with get_returns_fresh[of cm3 "at_catch w" u c] k(1,2)
    have "stored ?cm u c" "at_catch w - timestamp c < ttl ?cm" by auto
    with c(2) assms(2) show ?thesis by (intro exI[of _ c]) auto
  qed
  have b: "isl (fst (fetchSpec w client u forceRefresh))"
    if st: "\<forall>e. stored ?cm u e \<longrightarrow> ttl ?cm \<le> ?T - timestamp e"
  proof -
    from st assms(2) have "\<forall>e. stored cm3 u e \<longrightarrow> ttl cm3 \<le> at_catch w - timestamp e"
      using k(1,2) by (auto split: if_splits)
    then have 1: "fst (CacheManager_get cm3 (at_catch w) u) = None"
      by (rule get_none_when_stale)
    have 2: "fst (CacheManager_get ?cm (at_lookup w) u) = None" if "\<not> forceRefresh"
      using that st by (intro get_none_when_stale) simp
    from 1 2 k(4) show ?thesis by (cases forceRefresh) simp_all
  qed
  have b': "\<forall>e. \<not> stored (fst (snd (fetchSpec w client u forceRefresh))) u e"
    if st: "\<forall>e. stored ?cm u e \<longrightarrow> ttl ?cm \<le> ?T - timestamp e"
  proof -
    from b[OF st] after
    have "fst (snd (fetchSpec w client u forceRefresh)) = snd (CacheManager_get cm3 (at_catch w) u)"
      and "fst (CacheManager_get cm3 (at_catch w) u) = None"
      by simp_all
    then show ?thesis by (simp add: get_none_clears)
  qed
  have c: "\<not> isl (fst (fetchSpec w client u forceRefresh))"
    if "\<exists>e. disk ?cm (getDiskCachePath ?cm u) = Some (Readable e) \<and> ?T - timestamp e < ttl ?cm"
  proof (cases forceRefresh)
    case True
    with that k get_finds_fresh_file[of cm3 u _ "at_catch w"] show ?thesis by auto
  next
    case False
    with that get_finds_fresh_file[of ?cm u _ "at_lookup w"] k(4) show ?thesis by auto
  qed
  have d: "fst (fetchSpec w client u forceRefresh) = Inr (spec e)"
    if "memory_holds ?cm u e (at_lookup w) \<and> ?T - timestamp e < ttl ?cm" for e
  proof (cases forceRefresh)
    case True
    with that have h: "memory_holds ?cm u e (at_lookup w)" and fresh: "at_catch w - timestamp e < ttl ?cm"
      by simp_all
    from fresh assms(2) have "at_lookup w - timestamp e < ttl ?cm" by simp
    with m True h have "memory_holds cm3 u e (at_lookup w)" by blast
    from memory_holds_get[OF this, of "at_catch w"] fresh k(2)
    have "fst (CacheManager_get cm3 (at_catch w) u) = Some e" by simp
    with k(4) True show ?thesis by simp
  next
    case False
    with that have h: "memory_holds ?cm u e (at_lookup w)" and fresh: "at_lookup w - timestamp e < ttl ?cm"
      by simp_all
    from memory_holds_get[OF h fresh] k(4) False show ?thesis by simp
  qed
  from a b b' c d show ?thesis by blast
qed

lemma offline_fails:
  "fst (fetchWithRetry 3 1000 validateStatus_fetchSpec (\<lambda>i. NoReply :: unit reply)) = Inl (AxiosError None)"
  by (simp add: fetchWithRetry_def fetchWithRetry_from.simps axios_get_def)

text \<open>
  C1, as stated, fails: \<open>fetchSpec\<close> looks for its fallback with \<open>CacheManager_get\<close>, which
  gives only fresh entries. Here the store holds an entry written at time 0 under a TTL of one
  second, the network is down, and the call is made at 5 seconds: it throws, forced or not.
\<close>

theorem fetchSpec_stale_counterexample:
  "stored (cacheManager demo_client) ''http://api'' demo_entry
   \<and> fst (fetchSpec (offline_at 5000 12000) demo_client ''http://api'' False) = Inl (AxiosError None)
   \<and> fst (fetchSpec (offline_at 5000 12000) demo_client ''http://api'' True) = Inl (AxiosError None)"
proof -
  have 1: "fst (fetchSpec (offline_at 5000 12000) demo_client ''http://api'' False) = Inl (AxiosError None)"
    by (simp add: fetchSpec_def offline_at_def demo_client_def offline_fails Let_def split_beta
        demo_cache_def CacheManager_get_def CacheManager_set_def CacheManager_new_def
        CacheManager_getEtag_def CacheManager_getLastModified_def
        lru_get_def lru_set_def lru_delete_def getDiskCachePath_def)
  have 2: "fst (fetchSpec (offline_at 5000 12000) demo_client ''http://api'' True) = Inl (AxiosError None)"
    by (simp add: fetchSpec_def offline_at_def demo_client_def offline_fails Let_def split_beta
        demo_cache_def CacheManager_get_def CacheManager_set_def CacheManager_new_def
        CacheManager_getEtag_def CacheManager_getLastModified_def
        lru_get_def lru_set_def lru_delete_def getDiskCachePath_def)
  from 1 2 show ?thesis by (simp add: demo_client_def demo_stored)
qed

theorem fetchSpec_fallback_fresh_only_witness:
  "\<not> isl (fst (fetchSpec (offline_at 100 999) demo_client ''http://api'' True))
   \<and> isl (fst (fetchSpec (offline_at 5000 12000) demo_client ''http://api'' True))
   \<and> \<not> stored (fst (snd (fetchSpec (offline_at 5000 12000) demo_client ''http://api'' True)))
          ''http://api'' demo_entry
   \<and> disk memory_cache (getDiskCachePath memory_cache ''http://api'') = None
   \<and> fst (fetchSpec (offline_at 100 999) memory_client ''http://api'' True) = Inr ''doc''
   \<and> fst (fetchSpec (offline_at 100 999) memory_client ''http://api'' False) = Inr ''doc''"
proof -
  have fails: "\<forall>h. isl (fst (fetchWithRetry (retryAttempts demo_client) (retryDelay demo_client)
                          validateStatus_fetchSpec (network (offline_at t0 t1) ''http://api'' h)))" for t0 t1
    by (simp add: demo_client_def offline_at_def offline_fails)
  have fails': "\<forall>h. isl (fst (fetchWithRetry (retryAttempts memory_client) (retryDelay memory_client)
                          validateStatus_fetchSpec (network (offline_at t0 t1) ''http://api'' h)))" for t0 t1
    by (simp add: memory_client_def offline_at_def offline_fails)
  have d: "disk demo_cache (getDiskCachePath demo_cache ''http://api'') = Some (Readable demo_entry)"
    by (simp add: demo_cache_def demo_entry_def CacheManager_set_def CacheManager_new_def
        getDiskCachePath_def Let_def)
  have t: "ttl demo_cache = 1000" "timestamp demo_entry = 0" "ttl memory_cache = 1000"
      "spec demo_entry = ''doc''"
    by (simp_all add: demo_cache_def memory_cache_def demo_entry_def CacheManager_set_def
        CacheManager_new_def Let_def)
  have nd: "disk memory_cache (getDiskCachePath memory_cache ''http://api'') = None"
    by (simp add: memory_cache_def CacheManager_set_def CacheManager_new_def getDiskCachePath_def Let_def)
  have h: "memory_holds memory_cache ''http://api'' demo_entry 100"
    unfolding memory_cache_def demo_entry_def
    by (rule memory_holds_after_set) (simp_all add: CacheManager_new_def)
  have 1: "\<not> isl (fst (fetchSpec (offline_at 100 999) demo_client ''http://api'' True))"
    using fetchSpec_fallback_fresh_only[OF fails, of 100 999 True] d t
    by (simp add: offline_at_def demo_client_def)
  have 2: "isl (fst (fetchSpec (offline_at 5000 12000) demo_client ''http://api'' True))
           \<and> \<not> stored (fst (snd (fetchSpec (offline_at 5000 12000) demo_client ''http://api'' True)))
                  ''http://api'' demo_entry"
    using fetchSpec_fallback_fresh_only[OF fails, of 5000 12000 True] t
    by (simp add: offline_at_def demo_client_def demo_stored)
  have 3: "fst (fetchSpec (offline_at 100 999) memory_client ''http://api'' forced) = Inr ''doc''" for forced
    using fetchSpec_fallback_fresh_only[OF fails', of 100 999 forced] h t
    by (auto simp add: offline_at_def memory_client_def)
  from 1 2 3 nd show ?thesis by simp
qed

section \<open>Properties of request validation\<close>

lemma type_validation_ignores:
  "type_validation v (Schema r t mo mx emx mn emn mxl mnl pat mxi mni ui mxp mnp req en its props)
   = type_validation v (Schema r t mo mx emx mn emn mxl mnl pat mxi mni ui mxp mnp req en its' props')"
  by (simp add: type_validation_def cong: option.case_cong if_cong)

lemma string_validations_ignores:
  "string_validations rt v (Schema r t mo mx emx mn emn mxl mnl pat mxi mni ui mxp mnp req en its props)
   = string_validations rt v (Schema r t mo mx emx mn emn mxl mnl pat mxi mni ui mxp mnp req en its' props')"
  by (cases v) (simp_all add: string_validations_def cong: option.case_cong if_cong)

lemma number_validations_ignores:
  "number_validations rt v (Schema r t mo mx emx mn emn mxl mnl pat mxi mni ui mxp mnp req en its props)
   = number_validations rt v (Schema r t mo mx emx mn emn mxl mnl pat mxi mni ui mxp mnp req en its' props')"
  by (cases v) (simp_all add: number_validations_def cong: option.case_cong if_cong)

lemma array_validations_ignores:
  "array_validations rt v (Schema r t mo mx emx mn emn mxl mnl pat mxi mni ui mxp mnp req en its props)
   = array_validations rt v (Schema r t mo mx emx mn emn mxl mnl pat mxi mni ui mxp mnp req en its' props')"
  by (cases v) (simp_all add: array_validations_def cong: option.case_cong if_cong)

lemma enum_validation_ignores:
  "enum_validation rt v (Schema r t mo mx emx mn emn mxl mnl pat mxi mni ui mxp mnp req en its props)
   = enum_validation rt v (Schema r t mo mx emx mn emn mxl mnl pat mxi mni ui mxp mnp req en its' props')"
  by (simp add: enum_validation_def cong: option.case_cong if_cong)

lemma object_validations_ignores:
  "object_validations rt v (Schema r t mo mx emx mn emn mxl mnl pat mxi mni ui mxp mnp req en its props)
   = object_validations rt v (Schema r t mo mx emx mn emn mxl mnl pat mxi mni ui mxp mnp req en its' props')"
  by (cases v) (simp_all add: object_validations_def cong: option.case_cong if_cong)

lemma unconstrained_object:
  "validateAgainstSchema rt (JObj members)
       (Schema None (Some ''object'') None None None None None None None None None None None
          None None None None its props) f = Inr []"
  by (simp add: validateAgainstSchema_def type_validation_def string_validations_def
      number_validations_def array_validations_def enum_validation_def object_validations_def
      actualType_def)

lemma unconstrained_array:
  "validateAgainstSchema rt (JArr elements)
       (Schema None (Some ''array'') None None None None None None None None None None None
          None None None None its props) f = Inr []"
  by (simp add: validateAgainstSchema_def type_validation_def string_validations_def
      number_validations_def array_validations_def enum_validation_def object_validations_def
      actualType_def)

text \<open>
  C3. The validator looks at the node's own constraints only: changing the \<open>items\<close> and the
  \<open>properties\<close> of the schema never changes what it returns, and under an object or array
  schema with no constraint of its own every object, respectively every array, passes
  without errors, whatever its members and whatever sub-schemas are declared for them.
\<close>

theorem validateAgainstSchema_shallow:
  "validateAgainstSchema rt v
     (Schema r t mo mx emx mn emn mxl mnl pat mxi mni ui mxp mnp req en its props) f
   = validateAgainstSchema rt v
     (Schema r t mo mx emx mn emn mxl mnl pat mxi mni ui mxp mnp req en its' props') f
   \<and> validateAgainstSchema rt (JObj members)
       (Schema None (Some ''object'') None None None None None None None None None None None
          None None None None its props) f = Inr []
   \<and> validateAgainstSchema rt (JArr elements)
       (Schema None (Some ''array'') None None None None None None None None None None None
          None None None None its props) f = Inr []"
proof -
  have "validateAgainstSchema rt v
     (Schema r t mo mx emx mn emn mxl mnl pat mxi mni ui mxp mnp req en its props) f
   = validateAgainstSchema rt v
     (Schema r t mo mx emx mn emn mxl mnl pat mxi mni ui mxp mnp req en its' props') f"
    unfolding validateAgainstSchema_def
    using type_validation_ignores[of v r t mo mx emx mn emn mxl mnl pat mxi mni ui mxp mnp req en its props its' props']
      string_validations_ignores[of rt v r t mo mx emx mn emn mxl mnl pat mxi mni ui mxp mnp req en its props its' props']
      number_validations_ignores[of rt v r t mo mx emx mn emn mxl mnl pat mxi mni ui mxp mnp req en its props its' props']
      array_validations_ignores[of rt v r t mo mx emx mn emn mxl mnl pat mxi mni ui mxp mnp req en its props its' props']
      enum_validation_ignores[of rt v r t mo mx emx mn emn mxl mnl pat mxi mni ui mxp mnp req en its props its' props']
      object_validations_ignores[of rt v r t mo mx emx mn emn mxl mnl pat mxi mni ui mxp mnp req en its props its' props']
    by presburger
  then show ?thesis
    using unconstrained_object unconstrained_array by blast
qed


text \<open>Each validator only appends to the result it is given.\<close>

lemma validatePathParameter_appends:
  "validatePathParameter rt param pp r =
     map_sum id (\<lambda>r0. r\<lparr>errors := errors r @ errors r0, warnings := warnings r @ warnings r0\<rparr>)
       (validatePathParameter rt param pp \<lparr>valid = True, errors = [], warnings = []\<rparr>)"
  by (auto simp: validatePathParameter_def push_error_def push_errors_def push_warning_def Let_def
      split: option.splits sum.splits)

lemma validateQueryParameter_appends:
  "validateQueryParameter rt param pp r =
     map_sum id (\<lambda>r0. r\<lparr>errors := errors r @ errors r0, warnings := warnings r @ warnings r0\<rparr>)
       (validateQueryParameter rt param pp \<lparr>valid = True, errors = [], warnings = []\<rparr>)"
  by (auto simp: validateQueryParameter_def push_error_def push_errors_def push_warning_def Let_def
      split: option.splits sum.splits)

lemma validateHeaderParameter_appends:
  "validateHeaderParameter rt param hs r =
     map_sum id (\<lambda>r0. r\<lparr>errors := errors r @ errors r0, warnings := warnings r @ warnings r0\<rparr>)
       (validateHeaderParameter rt param hs \<lparr>valid = True, errors = [], warnings = []\<rparr>)"
  by (auto simp: validateHeaderParameter_def push_error_def push_errors_def push_warning_def Let_def
      split: option.splits sum.splits)

lemma validateRequestBody_appends:
  "validateRequestBody rt rb b doc r =
     map_sum id (\<lambda>r0. r\<lparr>errors := errors r @ errors r0, warnings := warnings r @ warnings r0\<rparr>)
       (validateRequestBody rt rb b doc \<lparr>valid = True, errors = [], warnings = []\<rparr>)"
  by (auto simp: validateRequestBody_def validate_body_def push_error_def push_errors_def
      push_warning_def Let_def split: option.splits sum.splits)

lemma validatePathParameters_appends:
  "validatePathParameters rt ps pp p r =
     map_sum id (\<lambda>r0. r\<lparr>errors := errors r @ errors r0, warnings := warnings r @ warnings r0\<rparr>)
       (validatePathParameters rt ps pp p \<lparr>valid = True, errors = [], warnings = []\<rparr>)"
proof (induction ps arbitrary: r)
  case Nil
  show ?case by simp
next
  case (Cons param ps)
  show ?case
  proof (cases "validatePathParameter rt param pp \<lparr>valid = True, errors = [], warnings = []\<rparr>")
    case (Inl thrown)
    then show ?thesis
      using validatePathParameter_appends[of rt param pp r] by simp
  next
    case (Inr rb)
    then have 1: "validatePathParameter rt param pp r
        = Inr (r\<lparr>errors := errors r @ errors rb, warnings := warnings r @ warnings rb\<rparr>)"
      using validatePathParameter_appends[of rt param pp r] by simp
    show ?thesis
      using Inr 1
        Cons.IH[of "r\<lparr>errors := errors r @ errors rb, warnings := warnings r @ warnings rb\<rparr>"]
        Cons.IH[of rb]
      by (cases "validatePathParameters rt ps pp p \<lparr>valid = True, errors = [], warnings = []\<rparr>") simp_all
  qed
qed

lemma validateQueryParameters_appends:
  "validateQueryParameters rt ps pp r =
     map_sum id (\<lambda>r0. r\<lparr>errors := errors r @ errors r0, warnings := warnings r @ warnings r0\<rparr>)
       (validateQueryParameters rt ps pp \<lparr>valid = True, errors = [], warnings = []\<rparr>)"
proof (induction ps arbitrary: r)
  case Nil
  show ?case by simp
next
  case (Cons param ps)
  show ?case
  proof (cases "validateQueryParameter rt param pp \<lparr>valid = True, errors = [], warnings = []\<rparr>")
    case (Inl thrown)
    then show ?thesis
      using validateQueryParameter_appends[of rt param pp r] by simp
  next
    case (Inr rb)
    then have 1: "validateQueryParameter rt param pp r
        = Inr (r\<lparr>errors := errors r @ errors rb, warnings := warnings r @ warnings rb\<rparr>)"
      using validateQueryParameter_appends[of rt param pp r] by simp
    show ?thesis
      using Inr 1
        Cons.IH[of "r\<lparr>errors := errors r @ errors rb, warnings := warnings r @ warnings rb\<rparr>"]
        Cons.IH[of rb]
      by (cases "validateQueryParameters rt ps pp \<lparr>valid = True, errors = [], warnings = []\<rparr>") simp_all
  qed
qed

lemma validateHeaderParameters_appends:
  "validateHeaderParameters rt ps hs r =
     map_sum id (\<lambda>r0. r\<lparr>errors := errors r @ errors r0, warnings := warnings r @ warnings r0\<rparr>)
       (validateHeaderParameters rt ps hs \<lparr>valid = True, errors = [], warnings = []\<rparr>)"
proof (induction ps arbitrary: r)
  case Nil
  show ?case by simp
next
  case (Cons param ps)
  show ?case
  proof (cases "validateHeaderParameter rt param hs \<lparr>valid = True, errors = [], warnings = []\<rparr>")
    case (Inl thrown)
    then show ?thesis
      using validateHeaderParameter_appends[of rt param hs r] by simp
  next
    case (Inr rb)
    then have 1: "validateHeaderParameter rt param hs r
        = Inr (r\<lparr>errors := errors r @ errors rb, warnings := warnings r @ warnings rb\<rparr>)"
      using validateHeaderParameter_appends[of rt param hs r] by simp
    show ?thesis
      using Inr 1
        Cons.IH[of "r\<lparr>errors := errors r @ errors rb, warnings := warnings r @ warnings rb\<rparr>"]
        Cons.IH[of rb]
      by (cases "validateHeaderParameters rt ps hs \<lparr>valid = True, errors = [], warnings = []\<rparr>") simp_all
  qed
qed

lemma appends_InrE:
  assumes "fr = map_sum id (\<lambda>r0. r\<lparr>errors := errors r @ errors r0, warnings := warnings r @ warnings r0\<rparr>) fe"
    and "fr = Inr y"
  obtains r0 where "fe = Inr r0" and "errors y = errors r @ errors r0"
  using assms by (cases fe) auto

lemma and_then_InrE:
  assumes "and_then x g = Inr y"
  obtains x0 where "x = Inr x0" and "g x0 = Inr y"
  using assms by (cases x) (auto simp: and_then_def)

lemma validate_operation_errors:
  assumes "validate_operation rt p args doc pathItem operation = Inr r"
  shows "\<exists>rp rq rh rb.
      validatePathParameters rt
        (filter (\<lambda>q. param_in q = ''path'')
           (item_parameters pathItem
            @ (case op_parameters operation of Some ps \<Rightarrow> ps | None \<Rightarrow> [])))
        (case params args of Some ps \<Rightarrow> ps | None \<Rightarrow> []) p
        \<lparr>valid = True, errors = [], warnings = []\<rparr> = Inr rp
    \<and> validateQueryParameters rt
        (filter (\<lambda>q. param_in q = ''query'')
           (item_parameters pathItem
            @ (case op_parameters operation of Some ps \<Rightarrow> ps | None \<Rightarrow> [])))
        (case params args of Some ps \<Rightarrow> ps | None \<Rightarrow> [])
        \<lparr>valid = True, errors = [], warnings = []\<rparr> = Inr rq
    \<and> validateHeaderParameters rt
        (filter (\<lambda>q. param_in q = ''header'')
           (item_parameters pathItem
            @ (case op_parameters operation of Some ps \<Rightarrow> ps | None \<Rightarrow> [])))
        (case headers args of Some hs \<Rightarrow> hs | None \<Rightarrow> [])
        \<lparr>valid = True, errors = [], warnings = []\<rparr> = Inr rh
    \<and> (case op_requestBody operation of
          Some requestBody \<Rightarrow>
            validateRequestBody rt requestBody (body args) doc
              \<lparr>valid = True, errors = [], warnings = []\<rparr>
        | None \<Rightarrow> Inr \<lparr>valid = True, errors = [], warnings = []\<rparr>) = Inr rb
    \<and> errors r = errors rp @ errors rq @ errors rh @ errors rb
    \<and> valid r = (errors r = [])"
proof -
  let ?e = "\<lparr>valid = True, errors = [], warnings = []\<rparr>"
  let ?all = "item_parameters pathItem
            @ (case op_parameters operation of Some ps \<Rightarrow> ps | None \<Rightarrow> [])"
  let ?pp = "case params args of Some ps \<Rightarrow> ps | None \<Rightarrow> []"
  let ?hh = "case headers args of Some hs \<Rightarrow> hs | None \<Rightarrow> []"
  let ?bodyv = "\<lambda>res. case op_requestBody operation of
          Some requestBody \<Rightarrow> validateRequestBody rt requestBody (body args) doc res
        | None \<Rightarrow> Inr (if body args \<noteq> None \<and> body args \<noteq> Some JNull
                     then push_warning res ''Request body provided but not expected for this endpoint''
                     else res)"
  from assms obtain r1 where
    r1: "validatePathParameters rt (filter (\<lambda>q. param_in q = ''path'') ?all) ?pp p ?e = Inr r1"
    and c1: "and_then (validateQueryParameters rt (filter (\<lambda>q. param_in q = ''query'') ?all) ?pp r1)
        (\<lambda>result2. and_then
           (validateHeaderParameters rt (filter (\<lambda>q. param_in q = ''header'') ?all) ?hh result2)
        (\<lambda>result3. and_then (?bodyv result3)
        (\<lambda>result4.
           let result5 =
                 (if op_deprecated operation = Some True
                  then push_warning result4 ''This endpoint is deprecated''
                  else result4)
           in Inr (result5\<lparr>valid := (errors result5 = [])\<rparr>)))) = Inr r"
    unfolding validate_operation_def Let_def by (rule and_then_InrE)
  from c1 obtain r2 where
    r2: "validateQueryParameters rt (filter (\<lambda>q. param_in q = ''query'') ?all) ?pp r1 = Inr r2"
    and c2: "and_then
           (validateHeaderParameters rt (filter (\<lambda>q. param_in q = ''header'') ?all) ?hh r2)
        (\<lambda>result3. and_then (?bodyv result3)
        (\<lambda>result4.
           let result5 =
                 (if op_deprecated operation = Some True
                  then push_warning result4 ''This endpoint is deprecated''
                  else result4)
           in Inr (result5\<lparr>valid := (errors result5 = [])\<rparr>))) = Inr r"
    by (rule and_then_InrE)
  from c2 obtain r3 where
    r3: "validateHeaderParameters rt (filter (\<lambda>q. param_in q = ''header'') ?all) ?hh r2 = Inr r3"
    and c3: "and_then (?bodyv r3)
        (\<lambda>result4.
           let result5 =
                 (if op_deprecated operation = Some True
                  then push_warning result4 ''This endpoint is deprecated''
                  else result4)
           in Inr (result5\<lparr>valid := (errors result5 = [])\<rparr>)) = Inr r"
    by (rule and_then_InrE)
  from c3 obtain r4 where r4: "?bodyv r3 = Inr r4"
    by (cases "?bodyv r3") (simp_all add: and_then_def)
  with c3 have fin: "errors r = errors r4" "valid r = (errors r = [])"
    by (auto simp: and_then_def Let_def push_warning_def split: if_splits)
  from validateQueryParameters_appends[of rt "filter (\<lambda>q. param_in q = ''query'') ?all" ?pp r1] r2
  obtain rq where
    rq: "validateQueryParameters rt (filter (\<lambda>q. param_in q = ''query'') ?all) ?pp ?e = Inr rq"
    and e2: "errors r2 = errors r1 @ errors rq"
    by (rule appends_InrE)
  from validateHeaderParameters_appends[of rt "filter (\<lambda>q. param_in q = ''header'') ?all" ?hh r2] r3
  obtain rh where
    rh: "validateHeaderParameters rt (filter (\<lambda>q. param_in q = ''header'') ?all) ?hh ?e = Inr rh"
    and e3: "errors r3 = errors r2 @ errors rh"
    by (rule appends_InrE)
  have "\<exists>rb. (case op_requestBody operation of
          Some requestBody \<Rightarrow> validateRequestBody rt requestBody (body args) doc ?e
        | None \<Rightarrow> Inr ?e) = Inr rb \<and> errors r4 = errors r3 @ errors rb"
  proof (cases "op_requestBody operation")
    case None
    with r4 show ?thesis by (auto simp: push_warning_def split: if_splits)
  next
    case (Some requestBody)
    with r4 have "validateRequestBody rt requestBody (body args) doc r3 = Inr r4" by simp
    with validateRequestBody_appends[of rt requestBody "body args" doc r3]
    obtain rb where "validateRequestBody rt requestBody (body args) doc ?e = Inr rb"
      and "errors r4 = errors r3 @ errors rb"
      by (rule appends_InrE)
    with Some show ?thesis by simp
  qed
  then obtain rb where
    rb: "(case op_requestBody operation of
          Some requestBody \<Rightarrow> validateRequestBody rt requestBody (body args) doc ?e
        | None \<Rightarrow> Inr ?e) = Inr rb"
    and e4: "errors r4 = errors r3 @ errors rb" by blast
  from r1 rq rh rb e2 e3 e4 fin show ?thesis by (intro exI[of _ r1] exI[of _ rq] exI[of _ rh] exI[of _ rb]) simp
qed

lemma execute_InrE:
  assumes "execute rt args_opt doc_opt = Inr r"
  obtains doc p m args pathItem operation where "doc_opt = Some doc"
    and "validateArgs args_opt = Inr (p, m, args)"
    and "paths_get doc p = Some pathItem"
    and "item_get rt pathItem (toLowerCase rt m) = Some operation"
    and "validate_operation rt p args doc pathItem operation = Inr r"
proof -
  from assms obtain doc where d: "doc_opt = Some doc"
    by (cases doc_opt) (simp_all add: execute_def)
  with assms obtain p m args where v: "validateArgs args_opt = Inr (p, m, args)"
    and b: "(case paths_get doc p of
                 None \<Rightarrow> Inl (Error (''Path not found: '' @ p))
               | Some pathItem \<Rightarrow>
                   (case item_get rt pathItem (toLowerCase rt m) of
                      None \<Rightarrow> Inl (Error (''Method '' @ m @ '' not found for path '' @ p))
                    | Some operation \<Rightarrow> validate_operation rt p args doc pathItem operation)) = Inr r"
    by (cases "validateArgs args_opt") (auto simp: execute_def and_then_def)
  then obtain pathItem operation where "paths_get doc p = Some pathItem"
    "item_get rt pathItem (toLowerCase rt m) = Some operation"
    "validate_operation rt p args doc pathItem operation = Inr r"
    by (auto split: option.splits)
  with d v show ?thesis by (rule that)
qed

lemma execute_valid_iff:
  "execute rt args_opt doc_opt = Inr r \<Longrightarrow> valid r = (errors r = [])"
proof -
  assume "execute rt args_opt doc_opt = Inr r"
  then obtain p args doc pathItem operation
    where "validate_operation rt p args doc pathItem operation = Inr r"
    by (rule execute_InrE)
  from validate_operation_errors[OF this] show ?thesis by blast
qed

lemma execute_declared:
  "map_of (paths doc) p = Some pathItem \<Longrightarrow>
   map_of (pathItem_operations pathItem) (toLowerCase rt m) = Some operation \<Longrightarrow>
   execute rt (Some \<lparr>path = Some p, http_method = Some m, params = ps, headers = hs, body = b\<rparr>)
     (Some doc)
   = validate_operation rt p
       \<lparr>path = Some p, http_method = Some m, params = ps, headers = hs, body = b\<rparr> doc
       (DeclaredItem pathItem) operation"
  by (simp add: execute_def validateArgs_def and_then_def paths_get_def item_get_def)

text \<open>Each validator reports under its own location.\<close>

lemma validatePathParameter_located:
  "validatePathParameter rt q pp \<lparr>valid = True, errors = [], warnings = []\<rparr> = Inr x \<Longrightarrow>
   \<forall>e \<in> set (errors x). location e = ''path''"
  by (auto simp: validatePathParameter_def push_error_def push_errors_def push_warning_def Let_def
      split: option.splits sum.splits if_splits)

lemma validateQueryParameter_located:
  "validateQueryParameter rt q pp \<lparr>valid = True, errors = [], warnings = []\<rparr> = Inr x \<Longrightarrow>
   \<forall>e \<in> set (errors x). location e = ''query''"
  by (auto simp: validateQueryParameter_def push_error_def push_errors_def push_warning_def Let_def
      split: option.splits sum.splits if_splits)

lemma validateHeaderParameter_located:
  "validateHeaderParameter rt q hs \<lparr>valid = True, errors = [], warnings = []\<rparr> = Inr x \<Longrightarrow>
   \<forall>e \<in> set (errors x). location e = ''header''"
  by (auto simp: validateHeaderParameter_def push_error_def push_errors_def push_warning_def Let_def
      split: option.splits sum.splits if_splits)

lemma validateRequestBody_located:
  "validateRequestBody rt rb b doc \<lparr>valid = True, errors = [], warnings = []\<rparr> = Inr x \<Longrightarrow>
   \<forall>e \<in> set (errors x). location e = ''body''"
  by (auto simp: validateRequestBody_def validate_body_def push_error_def push_errors_def
      push_warning_def Let_def split: option.splits sum.splits if_splits)

text \<open>The errors of a loop are those of its rounds, each run on its own, in order.\<close>

lemma validatePathParameters_rounds:
  "validatePathParameters rt ps pp p r = Inr r' \<Longrightarrow>
   \<exists>xs. list_all2 (\<lambda>q x. validatePathParameter rt q pp \<lparr>valid = True, errors = [], warnings = []\<rparr> = Inr x) ps xs
      \<and> errors r' = errors r @ concat (map errors xs)"
proof (induction ps arbitrary: r)
  case Nil
  then show ?case by simp
next
  case (Cons q ps)
  from Cons.prems obtain r1 where r1: "validatePathParameter rt q pp r = Inr r1"
    and rest: "validatePathParameters rt ps pp p r1 = Inr r'"
    by (cases "validatePathParameter rt q pp r") simp_all
  from validatePathParameter_appends[of rt q pp r] r1
  obtain x where x: "validatePathParameter rt q pp \<lparr>valid = True, errors = [], warnings = []\<rparr> = Inr x"
    and e: "errors r1 = errors r @ errors x"
    by (rule appends_InrE)
  from Cons.IH[OF rest] obtain xs where
    "list_all2 (\<lambda>q x. validatePathParameter rt q pp \<lparr>valid = True, errors = [], warnings = []\<rparr> = Inr x) ps xs"
    "errors r' = errors r1 @ concat (map errors xs)" by blast
  with x e show ?case by (intro exI[of _ "x # xs"]) simp
qed

lemma validateQueryParameters_rounds:
  "validateQueryParameters rt ps pp r = Inr r' \<Longrightarrow>
   \<exists>xs. list_all2 (\<lambda>q x. validateQueryParameter rt q pp \<lparr>valid = True, errors = [], warnings = []\<rparr> = Inr x) ps xs
      \<and> errors r' = errors r @ concat (map errors xs)"
proof (induction ps arbitrary: r)
  case Nil
  then show ?case by simp
next
  case (Cons q ps)
  from Cons.prems obtain r1 where r1: "validateQueryParameter rt q pp r = Inr r1"
    and rest: "validateQueryParameters rt ps pp r1 = Inr r'"
    by (cases "validateQueryParameter rt q pp r") simp_all
  from validateQueryParameter_appends[of rt q pp r] r1
  obtain x where x: "validateQueryParameter rt q pp \<lparr>valid = True, errors = [], warnings = []\<rparr> = Inr x"
    and e: "errors r1 = errors r @ errors x"
    by (rule appends_InrE)
  from Cons.IH[OF rest] obtain xs where
    "list_all2 (\<lambda>q x. validateQueryParameter rt q pp \<lparr>valid = True, errors = [], warnings = []\<rparr> = Inr x) ps xs"
    "errors r' = errors r1 @ concat (map errors xs)" by blast
  with x e show ?case by (intro exI[of _ "x # xs"]) simp
qed

lemma validateHeaderParameters_rounds:
  "validateHeaderParameters rt ps hs r = Inr r' \<Longrightarrow>
   \<exists>xs. list_all2 (\<lambda>q x. validateHeaderParameter rt q hs \<lparr>valid = True, errors = [], warnings = []\<rparr> = Inr x) ps xs
      \<and> errors r' = errors r @ concat (map errors xs)"
proof (induction ps arbitrary: r)
  case Nil
  then show ?case by simp
next
  case (Cons q ps)
  from Cons.prems obtain r1 where r1: "validateHeaderParameter rt q hs r = Inr r1"
    and rest: "validateHeaderParameters rt ps hs r1 = Inr r'"
    by (cases "validateHeaderParameter rt q hs r") simp_all
  from validateHeaderParameter_appends[of rt q hs r] r1
  obtain x where x: "validateHeaderParameter rt q hs \<lparr>valid = True, errors = [], warnings = []\<rparr> = Inr x"
    and e: "errors r1 = errors r @ errors x"
    by (rule appends_InrE)
  from Cons.IH[OF rest] obtain xs where
    "list_all2 (\<lambda>q x. validateHeaderParameter rt q hs \<lparr>valid = True, errors = [], warnings = []\<rparr> = Inr x) ps xs"
    "errors r' = errors r1 @ concat (map errors xs)" by blast
  with x e show ?case by (intro exI[of _ "x # xs"]) simp
qed

lemma rounds_located:
  assumes "list_all2 (\<lambda>q x. f q = Inr x) ps xs"
    and "\<And>q x. f q = Inr x \<Longrightarrow> \<forall>e \<in> set (errors x). location e = l"
  shows "\<forall>e \<in> set (concat (map errors xs)). location e = l"
  using assms(1)
proof (induction rule: list_all2_induct)
  case Nil
  show ?case by simp
next
  case (Cons q ps x xs)
  with assms(2)[of q x] show ?case by auto
qed

lemma validatePathParameters_located:
  assumes "validatePathParameters rt ps pp p \<lparr>valid = True, errors = [], warnings = []\<rparr> = Inr r'"
  shows "\<forall>e \<in> set (errors r'). location e = ''path''"
proof -
  from validatePathParameters_rounds[OF assms] obtain xs where
    xs: "list_all2 (\<lambda>q x. validatePathParameter rt q pp \<lparr>valid = True, errors = [], warnings = []\<rparr> = Inr x) ps xs"
    and e: "errors r' = concat (map errors xs)" by auto
  from rounds_located[OF xs validatePathParameter_located] e show ?thesis by simp
qed

lemma validateQueryParameters_located:
  assumes "validateQueryParameters rt ps pp \<lparr>valid = True, errors = [], warnings = []\<rparr> = Inr r'"
  shows "\<forall>e \<in> set (errors r'). location e = ''query''"
proof -
  from validateQueryParameters_rounds[OF assms] obtain xs where
    xs: "list_all2 (\<lambda>q x. validateQueryParameter rt q pp \<lparr>valid = True, errors = [], warnings = []\<rparr> = Inr x) ps xs"
    and e: "errors r' = concat (map errors xs)" by auto
  from rounds_located[OF xs validateQueryParameter_located] e show ?thesis by simp
qed

lemma validateHeaderParameters_located:
  assumes "validateHeaderParameters rt ps hs \<lparr>valid = True, errors = [], warnings = []\<rparr> = Inr r'"
  shows "\<forall>e \<in> set (errors r'). location e = ''header''"
proof -
  from validateHeaderParameters_rounds[OF assms] obtain xs where
    xs: "list_all2 (\<lambda>q x. validateHeaderParameter rt q hs \<lparr>valid = True, errors = [], warnings = []\<rparr> = Inr x) ps xs"
    and e: "errors r' = concat (map errors xs)" by auto
  from rounds_located[OF xs validateHeaderParameter_located] e show ?thesis by simp
qed

text \<open>What \<open>execute\<close> returns for a declared operation, location by location.\<close>

lemma execute_by_location:
  assumes "map_of (paths doc) p = Some pathItem"
    and "map_of (pathItem_operations pathItem) (toLowerCase rt m) = Some operation"
    and "execute rt (Some \<lparr>path = Some p, http_method = Some m, params = ps, headers = hs, body = b\<rparr>)
           (Some doc) = Inr r"
  shows "\<exists>rp rq rh rb.
           validatePathParameters rt
             (filter (\<lambda>q. param_in q = ''path'')
                ((case pathItem_parameters pathItem of Some xs \<Rightarrow> xs | None \<Rightarrow> [])
                 @ (case op_parameters operation of Some xs \<Rightarrow> xs | None \<Rightarrow> [])))
             (case ps of Some xs \<Rightarrow> xs | None \<Rightarrow> []) p
             \<lparr>valid = True, errors = [], warnings = []\<rparr> = Inr rp
         \<and> validateQueryParameters rt
             (filter (\<lambda>q. param_in q = ''query'')
                ((case pathItem_parameters pathItem of Some xs \<Rightarrow> xs | None \<Rightarrow> [])
                 @ (case op_parameters operation of Some xs \<Rightarrow> xs | None \<Rightarrow> [])))
             (case ps of Some xs \<Rightarrow> xs | None \<Rightarrow> [])
             \<lparr>valid = True, errors = [], warnings = []\<rparr> = Inr rq
         \<and> validateHeaderParameters rt
             (filter (\<lambda>q. param_in q = ''header'')
                ((case pathItem_parameters pathItem of Some xs \<Rightarrow> xs | None \<Rightarrow> [])
                 @ (case op_parameters operation of Some xs \<Rightarrow> xs | None \<Rightarrow> [])))
             (case hs of Some xs \<Rightarrow> xs | None \<Rightarrow> [])
             \<lparr>valid = True, errors = [], warnings = []\<rparr> = Inr rh
         \<and> (case op_requestBody operation of
               Some requestBody \<Rightarrow>
                 validateRequestBody rt requestBody b doc
                   \<lparr>valid = True, errors = [], warnings = []\<rparr>
             | None \<Rightarrow> Inr \<lparr>valid = True, errors = [], warnings = []\<rparr>) = Inr rb
         \<and> errors r = errors rp @ errors rq @ errors rh @ errors rb
         \<and> filter (\<lambda>e. location e = ''path'') (errors r) = errors rp
         \<and> filter (\<lambda>e. location e = ''query'') (errors r) = errors rq
         \<and> filter (\<lambda>e. location e = ''header'') (errors r) = errors rh
         \<and> filter (\<lambda>e. location e = ''body'') (errors r) = errors rb"
proof -
  from assms have "validate_operation rt p
      \<lparr>path = Some p, http_method = Some m, params = ps, headers = hs, body = b\<rparr> doc
      (DeclaredItem pathItem) operation = Inr r"
    by (simp add: execute_declared)
  from validate_operation_errors[OF this, unfolded ValidateRequestArgs.select_convs item_parameters_def
      path_item_value.case]
  obtain rp rq rh rb where
    rp: "validatePathParameters rt
             (filter (\<lambda>q. param_in q = ''path'')
                ((case pathItem_parameters pathItem of Some xs \<Rightarrow> xs | None \<Rightarrow> [])
                 @ (case op_parameters operation of Some xs \<Rightarrow> xs | None \<Rightarrow> [])))
             (case ps of Some xs \<Rightarrow> xs | None \<Rightarrow> []) p
             \<lparr>valid = True, errors = [], warnings = []\<rparr> = Inr rp"
    and rq: "validateQueryParameters rt
             (filter (\<lambda>q. param_in q = ''query'')
                ((case pathItem_parameters pathItem of Some xs \<Rightarrow> xs | None \<Rightarrow> [])
                 @ (case op_parameters operation of Some xs \<Rightarrow> xs | None \<Rightarrow> [])))
             (case ps of Some xs \<Rightarrow> xs | None \<Rightarrow> [])
             \<lparr>valid = True, errors = [], warnings = []\<rparr> = Inr rq"
    and rh: "validateHeaderParameters rt
             (filter (\<lambda>q. param_in q = ''header'')
                ((case pathItem_parameters pathItem of Some xs \<Rightarrow> xs | None \<Rightarrow> [])
                 @ (case op_parameters operation of Some xs \<Rightarrow> xs | None \<Rightarrow> [])))
             (case hs of Some xs \<Rightarrow> xs | None \<Rightarrow> [])
             \<lparr>valid = True, errors = [], warnings = []\<rparr> = Inr rh"
    and rb: "(case op_requestBody operation of
               Some requestBody \<Rightarrow>
                 validateRequestBody rt requestBody b doc
                   \<lparr>valid = True, errors = [], warnings = []\<rparr>
             | None \<Rightarrow> Inr \<lparr>valid = True, errors = [], warnings = []\<rparr>) = Inr rb"
    and e: "errors r = errors rp @ errors rq @ errors rh @ errors rb"
    by blast
  have lp: "\<forall>e \<in> set (errors rp). location e = ''path''"
    using rp by (rule validatePathParameters_located)
  have lq: "\<forall>e \<in> set (errors rq). location e = ''query''"
    using rq by (rule validateQueryParameters_located)
  have lh: "\<forall>e \<in> set (errors rh). location e = ''header''"
    using rh by (rule validateHeaderParameters_located)
  have lb: "\<forall>e \<in> set (errors rb). location e = ''body''"
    using rb validateRequestBody_located
    by (cases "op_requestBody operation") auto
  have keep: "filter P xs = xs" if "\<forall>e \<in> set xs. P e" for P and xs :: "ValidationError list"
    using that by (simp add: filter_id_conv)
  have drop: "filter P xs = []" if "\<forall>e \<in> set xs. \<not> P e" for P and xs :: "ValidationError list"
    using that by (simp add: filter_empty_conv)
  have fp: "filter (\<lambda>e. location e = ''path'') (errors r) = errors rp"
    unfolding e filter_append
    using keep[of "errors rp" "\<lambda>e. location e = ''path''"]
      drop[of "errors rq" "\<lambda>e. location e = ''path''"]
      drop[of "errors rh" "\<lambda>e. location e = ''path''"]
      drop[of "errors rb" "\<lambda>e. location e = ''path''"] lp lq lh lb
    by simp
  have fq: "filter (\<lambda>e. location e = ''query'') (errors r) = errors rq"
    unfolding e filter_append
    using keep[of "errors rq" "\<lambda>e. location e = ''query''"]
      drop[of "errors rp" "\<lambda>e. location e = ''query''"]
      drop[of "errors rh" "\<lambda>e. location e = ''query''"]
      drop[of "errors rb" "\<lambda>e. location e = ''query''"] lp lq lh lb
    by simp
  have fh: "filter (\<lambda>e. location e = ''header'') (errors r) = errors rh"
    unfolding e filter_append
    using keep[of "errors rh" "\<lambda>e. location e = ''header''"]
      drop[of "errors rp" "\<lambda>e. location e = ''header''"]
      drop[of "errors rq" "\<lambda>e. location e = ''header''"]
      drop[of "errors rb" "\<lambda>e. location e = ''header''"] lp lq lh lb
    by simp
  have fb: "filter (\<lambda>e. location e = ''body'') (errors r) = errors rb"
    unfolding e filter_append
    using keep[of "errors rb" "\<lambda>e. location e = ''body''"]
      drop[of "errors rp" "\<lambda>e. location e = ''body''"]
      drop[of "errors rq" "\<lambda>e. location e = ''body''"]
      drop[of "errors rh" "\<lambda>e. location e = ''body''"] lp lq lh lb
    by simp
  from rp rq rh rb e fp fq fh fb show ?thesis by blast
qed

lemma lower_samples:
  "toLowerCase plain_runtime ''POST'' = ''post''"
  "toLowerCase plain_runtime ''PUT'' = ''put''"
  "toLowerCase plain_runtime ''PATCH'' = ''patch''"
  "toLowerCase plain_runtime ''GET'' = ''get''"
  "toLowerCase plain_runtime ''constructor'' = ''constructor''"
  "toLowerCase plain_runtime ''Constructor'' = ''constructor''"
  "toLowerCase plain_runtime ''X-Request-ID'' = ''x-request-id''"
  "toLowerCase plain_runtime ''x-request-id'' = ''x-request-id''"
  "toLowerCase plain_runtime ''X-REQUEST-ID'' = ''x-request-id''"
  "toLowerCase plain_runtime ''X-Api-Key'' = ''x-api-key''"
  "toLowerCase plain_runtime ''x-api-key'' = ''x-api-key''"
  "toLowerCase plain_runtime ''accept'' = ''accept''"
  by (simp_all add: plain_runtime_def ascii_lower_def lower_char_def case_pairs_def)

lemma requires_email_and_name:
  "validateAgainstSchema rt (JObj [(''email'', JStr ''a@b.com'')])
     (Schema None (Some ''object'') None None None None None None None None None None None
        None None (Some [''email'', ''name'']) None its props) f
   = Inr [''Missing required property: name'']"
  by (simp add: validateAgainstSchema_def type_validation_def string_validations_def
      number_validations_def array_validations_def enum_validation_def object_validations_def
      actualType_def has_property_def get_property_def from_Object_prototype_def
      object_prototype_names_def)

lemma sample_violations:
  "validateAgainstSchema rt (JStr ''abc'') integer_schema f
     = Inr [''Expected type '' @ quoted ''integer'' @ '' but got '' @ quoted ''string'']"
  "validateAgainstSchema rt (JStr []) integer_schema f
     = Inr [''Expected type '' @ quoted ''integer'' @ '' but got '' @ quoted ''string'']"
  "validateAgainstSchema rt (JNum 7) string_schema f
     = Inr [''Expected type '' @ quoted ''string'' @ '' but got '' @ quoted ''number'']"
  "validateAgainstSchema rt (JObj []) order_schema f = Inr [''Missing required property: item'']"
  by (simp_all add: validateAgainstSchema_def type_validation_def string_validations_def
      number_validations_def array_validations_def enum_validation_def object_validations_def
      actualType_def has_property_def get_property_def from_Object_prototype_def
      object_prototype_names_def integer_schema_def string_schema_def order_schema_def)

lemma order_schema_ref: "schema_ref order_schema = None"
  by (simp add: order_schema_def)

lemma users_post_with_header:
  "execute plain_runtime
     (Some \<lparr>path = Some ''/users'', http_method = Some ''POST'', params = None,
            headers = Some [(''x-request-id'', JStr ''1'')],
            body = Some (JObj [(''email'', JStr ''a@b.com'')])\<rparr>)
     (Some users_spec)
   = Inr \<lparr>valid = False,
          errors = [\<lparr>location = ''body'', field = ''body'',
                     message = ''Missing required property: name''\<rparr>],
          warnings = []\<rparr>"
  by (simp add: execute_def validateArgs_def and_then_def paths_get_def item_get_def
      item_parameters_def users_spec_def users_item_def users_post_def lower_samples
      validate_operation_def validateHeaderParameter_def providedHeadersLower_def
      js_set_def js_lookup_def validateRequestBody_def validate_body_def user_schema_def
      requires_email_and_name push_errors_def push_error_def Let_def)

lemma users_post_without_header:
  "execute plain_runtime
     (Some \<lparr>path = Some ''/users'', http_method = Some ''POST'', params = None,
            headers = None,
            body = Some (JObj [(''email'', JStr ''a@b.com'')])\<rparr>)
     (Some users_spec)
   = Inr \<lparr>valid = False,
          errors = [\<lparr>location = ''header'', field = ''X-Request-ID'',
                     message = ''Required header '' @ quoted ''X-Request-ID'' @ '' is missing''\<rparr>,
                    \<lparr>location = ''body'', field = ''body'',
                     message = ''Missing required property: name''\<rparr>],
          warnings = []\<rparr>"
  by (simp add: execute_def validateArgs_def and_then_def paths_get_def item_get_def
      item_parameters_def users_spec_def users_item_def users_post_def lower_samples
      validate_operation_def validateHeaderParameter_def providedHeadersLower_def
      js_set_def js_lookup_def inherited_from_def from_Object_prototype_def
      object_prototype_names_def validateRequestBody_def validate_body_def user_schema_def
      requires_email_and_name push_errors_def push_error_def Let_def)

lemma bad_order_rejected:
  "execute plain_runtime (Some bad_order) (Some orders_spec)
   = Inr \<lparr>valid = False,
          errors = [\<lparr>location = ''path'', field = ''id'',
                     message = ''Expected type '' @ quoted ''integer'' @ '' but got '' @ quoted ''string''\<rparr>,
                    \<lparr>location = ''query'', field = ''limit'',
                     message = ''Expected type '' @ quoted ''integer'' @ '' but got '' @ quoted ''string''\<rparr>,
                    \<lparr>location = ''query'', field = ''limit'',
                     message = ''Query parameter '' @ quoted ''limit'' @ '' cannot be empty''\<rparr>,
                    \<lparr>location = ''header'', field = ''X-Api-Key'',
                     message = ''Expected type '' @ quoted ''string'' @ '' but got '' @ quoted ''number''\<rparr>,
                    \<lparr>location = ''body'', field = ''body'',
                     message = ''Missing required property: item''\<rparr>],
          warnings = []\<rparr>"
  by (simp add: execute_def validateArgs_def and_then_def paths_get_def item_get_def
      item_parameters_def orders_spec_def orders_item_def orders_put_def bad_order_def
      lower_samples validate_operation_def validatePathParameter_def validateQueryParameter_def
      validateHeaderParameter_def providedHeadersLower_def js_set_def js_lookup_def
      has_property_def get_property_def
      validateRequestBody_def validate_body_def sample_violations order_schema_ref
      push_errors_def push_error_def Let_def)

lemma empty_order_rejected:
  "execute plain_runtime
     (Some \<lparr>path = Some ''/orders/{id}'', http_method = Some ''PUT'', params = None,
            headers = None, body = None\<rparr>)
     (Some orders_spec)
   = Inr \<lparr>valid = False,
          errors = [\<lparr>location = ''path'', field = ''id'',
                     message = ''Required path parameter '' @ quoted ''id'' @ '' is missing''\<rparr>,
                    \<lparr>location = ''query'', field = ''limit'',
                     message = ''Required query parameter '' @ quoted ''limit'' @ '' is missing''\<rparr>,
                    \<lparr>location = ''header'', field = ''X-Api-Key'',
                     message = ''Required header '' @ quoted ''X-Api-Key'' @ '' is missing''\<rparr>,
                    \<lparr>location = ''body'', field = ''body'',
                     message = ''Request body is required but not provided''\<rparr>],
          warnings = []\<rparr>"
  by (simp add: execute_def validateArgs_def and_then_def paths_get_def item_get_def
      item_parameters_def orders_spec_def orders_item_def orders_put_def
      lower_samples validate_operation_def validatePathParameter_def validateQueryParameter_def
      validateHeaderParameter_def providedHeadersLower_def js_set_def js_lookup_def
      has_property_def get_property_def inherited_from_def from_Object_prototype_def
      object_prototype_names_def
      validateRequestBody_def validate_body_def sample_violations order_schema_ref
      push_errors_def push_error_def Let_def)

text \<open>
  C6. Every result that \<open>execute\<close> returns has \<open>valid\<close> true exactly when \<open>errors\<close> is
  empty. For a declared operation its errors are those of the path parameters, then of the
  query parameters, then of the header parameters, then of the body, each validator run on
  its own: a failure at one location does not stop the others, and the errors of the result
  at each location are exactly those of the validator of that location. A schema of type
  object that requires \<open>email\<close> and \<open>name\<close> gives for the object with the single member
  \<open>email\<close> exactly the error that \<open>name\<close> is missing, and \<open>execute\<close> reports it with
  \<open>valid = False\<close>; when the required header is missing as well, both errors are reported.
  A request that violates the schema of its path parameter, of its query parameter, of its
  header and of its body gets all of these errors, in this order, and so does a request in
  which all four are missing.
\<close>

theorem execute_accumulates_errors:
  "(\<forall>r. execute rt args_opt doc_opt = Inr r \<longrightarrow> (valid r \<longleftrightarrow> errors r = []))
   \<and> (\<forall>r. map_of (paths doc) p = Some pathItem
          \<and> map_of (pathItem_operations pathItem) (toLowerCase rt m) = Some operation
          \<and> execute rt (Some \<lparr>path = Some p, http_method = Some m, params = ps, headers = hs, body = b\<rparr>)
                (Some doc) = Inr r
        \<longrightarrow> (\<exists>rp rq rh rb.
               validatePathParameters rt
                 (filter (\<lambda>q. param_in q = ''path'')
                    ((case pathItem_parameters pathItem of Some xs \<Rightarrow> xs | None \<Rightarrow> [])
                     @ (case op_parameters operation of Some xs \<Rightarrow> xs | None \<Rightarrow> [])))
                 (case ps of Some xs \<Rightarrow> xs | None \<Rightarrow> []) p
                 \<lparr>valid = True, errors = [], warnings = []\<rparr> = Inr rp
             \<and> validateQueryParameters rt
                 (filter (\<lambda>q. param_in q = ''query'')
                    ((case pathItem_parameters pathItem of Some xs \<Rightarrow> xs | None \<Rightarrow> [])
                     @ (case op_parameters operation of Some xs \<Rightarrow> xs | None \<Rightarrow> [])))
                 (case ps of Some xs \<Rightarrow> xs | None \<Rightarrow> [])
                 \<lparr>valid = True, errors = [], warnings = []\<rparr> = Inr rq
             \<and> validateHeaderParameters rt
                 (filter (\<lambda>q. param_in q = ''header'')
                    ((case pathItem_parameters pathItem of Some xs \<Rightarrow> xs | None \<Rightarrow> [])
                     @ (case op_parameters operation of Some xs \<Rightarrow> xs | None \<Rightarrow> [])))
                 (case hs of Some xs \<Rightarrow> xs | None \<Rightarrow> [])
                 \<lparr>valid = True, errors = [], warnings = []\<rparr> = Inr rh
             \<and> (case op_requestBody operation of
                   Some requestBody \<Rightarrow>
                     validateRequestBody rt requestBody b doc
                       \<lparr>valid = True, errors = [], warnings = []\<rparr>
                 | None \<Rightarrow> Inr \<lparr>valid = True, errors = [], warnings = []\<rparr>) = Inr rb
             \<and> errors r = errors rp @ errors rq @ errors rh @ errors rb
             \<and> filter (\<lambda>e. location e = ''path'') (errors r) = errors rp
             \<and> filter (\<lambda>e. location e = ''query'') (errors r) = errors rq
             \<and> filter (\<lambda>e. location e = ''header'') (errors r) = errors rh
             \<and> filter (\<lambda>e. location e = ''body'') (errors r) = errors rb))
   \<and> validateAgainstSchema rt (JObj [(''email'', JStr ''a@b.com'')])
         (Schema None (Some ''object'') None None None None None None None None None None None
            None None (Some [''email'', ''name'']) None its props) f
       = Inr [''Missing required property: name'']
   \<and> execute plain_runtime
         (Some \<lparr>path = Some ''/users'', http_method = Some ''POST'', params = None,
                headers = Some [(''x-request-id'', JStr ''1'')],
                body = Some (JObj [(''email'', JStr ''a@b.com'')])\<rparr>)
         (Some users_spec)
       = Inr \<lparr>valid = False,
              errors = [\<lparr>location = ''body'', field = ''body'',
                         message = ''Missing required property: name''\<rparr>],
              warnings = []\<rparr>
   \<and> execute plain_runtime
         (Some \<lparr>path = Some ''/users'', http_method = Some ''POST'', params = None,
                headers = None,
                body = Some (JObj [(''email'', JStr ''a@b.com'')])\<rparr>)
         (Some users_spec)
       = Inr \<lparr>valid = False,
              errors = [\<lparr>location = ''header'', field = ''X-Request-ID'',
                         message = ''Required header '' @ quoted ''X-Request-ID'' @ '' is missing''\<rparr>,
                        \<lparr>location = ''body'', field = ''body'',
                         message = ''Missing required property: name''\<rparr>],
              warnings = []\<rparr>
   \<and> execute plain_runtime (Some bad_order) (Some orders_spec)
       = Inr \<lparr>valid = False,
              errors = [\<lparr>location = ''path'', field = ''id'',
                         message = ''Expected type '' @ quoted ''integer'' @ '' but got '' @ quoted ''string''\<rparr>,
                        \<lparr>location = ''query'', field = ''limit'',
                         message = ''Expected type '' @ quoted ''integer'' @ '' but got '' @ quoted ''string''\<rparr>,
                        \<lparr>location = ''query'', field = ''limit'',
                         message = ''Query parameter '' @ quoted ''limit'' @ '' cannot be empty''\<rparr>,
                        \<lparr>location = ''header'', field = ''X-Api-Key'',
                         message = ''Expected type '' @ quoted ''string'' @ '' but got '' @ quoted ''number''\<rparr>,
                        \<lparr>location = ''body'', field = ''body'',
                         message = ''Missing required property: item''\<rparr>],
              warnings = []\<rparr>
   \<and> execute plain_runtime
         (Some \<lparr>path = Some ''/orders/{id}'', http_method = Some ''PUT'', params = None,
                headers = None, body = None\<rparr>)
         (Some orders_spec)
       = Inr \<lparr>valid = False,
              errors = [\<lparr>location = ''path'', field = ''id'',
                         message = ''Required path parameter '' @ quoted ''id'' @ '' is missing''\<rparr>,
                        \<lparr>location = ''query'', field = ''limit'',
                         message = ''Required query parameter '' @ quoted ''limit'' @ '' is missing''\<rparr>,
                        \<lparr>location = ''header'', field = ''X-Api-Key'',
                         message = ''Required header '' @ quoted ''X-Api-Key'' @ '' is missing''\<rparr>,
                        \<lparr>location = ''body'', field = ''body'',
                         message = ''Request body is required but not provided''\<rparr>],
              warnings = []\<rparr>"
proof -
  have a: "valid r \<longleftrightarrow> errors r = []" if "execute rt args_opt doc_opt = Inr r" for r
    using execute_valid_iff[OF that] .
  have b: "\<exists>rp rq rh rb.
               validatePathParameters rt
                 (filter (\<lambda>q. param_in q = ''path'')
                    ((case pathItem_parameters pathItem of Some xs \<Rightarrow> xs | None \<Rightarrow> [])
                     @ (case op_parameters operation of Some xs \<Rightarrow> xs | None \<Rightarrow> [])))
                 (case ps of Some xs \<Rightarrow> xs | None \<Rightarrow> []) p
                 \<lparr>valid = True, errors = [], warnings = []\<rparr> = Inr rp
             \<and> validateQueryParameters rt
                 (filter (\<lambda>q. param_in q = ''query'')
                    ((case pathItem_parameters pathItem of Some xs \<Rightarrow> xs | None \<Rightarrow> [])
                     @ (case op_parameters operation of Some xs \<Rightarrow> xs | None \<Rightarrow> [])))
                 (case ps of Some xs \<Rightarrow> xs | None \<Rightarrow> [])
                 \<lparr>valid = True, errors = [], warnings = []\<rparr> = Inr rq
             \<and> validateHeaderParameters rt
                 (filter (\<lambda>q. param_in q = ''header'')
                    ((case pathItem_parameters pathItem of Some xs \<Rightarrow> xs | None \<Rightarrow> [])
                     @ (case op_parameters operation of Some xs \<Rightarrow> xs | None \<Rightarrow> [])))
                 (case hs of Some xs \<Rightarrow> xs | None \<Rightarrow> [])
                 \<lparr>valid = True, errors = [], warnings = []\<rparr> = Inr rh
             \<and> (case op_requestBody operation of
                   Some requestBody \<Rightarrow>
                     validateRequestBody rt requestBody b doc
                       \<lparr>valid = True, errors = [], warnings = []\<rparr>
                 | None \<Rightarrow> Inr \<lparr>valid = True, errors = [], warnings = []\<rparr>) = Inr rb
             \<and> errors r = errors rp @ errors rq @ errors rh @ errors rb
             \<and> filter (\<lambda>e. location e = ''path'') (errors r) = errors rp
             \<and> filter (\<lambda>e. location e = ''query'') (errors r) = errors rq
             \<and> filter (\<lambda>e. location e = ''header'') (errors r) = errors rh
             \<and> filter (\<lambda>e. location e = ''body'') (errors r) = errors rb"
    if h: "map_of (paths doc) p = Some pathItem
          \<and> map_of (pathItem_operations pathItem) (toLowerCase rt m) = Some operation
          \<and> execute rt (Some \<lparr>path = Some p, http_method = Some m, params = ps, headers = hs, body = b\<rparr>)
                (Some doc) = Inr r" for r
  proof -
    from h have 1: "map_of (paths doc) p = Some pathItem"
      and 2: "map_of (pathItem_operations pathItem) (toLowerCase rt m) = Some operation"
      and 3: "execute rt (Some \<lparr>path = Some p, http_method = Some m, params = ps, headers = hs, body = b\<rparr>)
                (Some doc) = Inr r"
      by simp_all
    show ?thesis by (rule execute_by_location[OF 1 2 3])
  qed
  from a b requires_email_and_name users_post_with_header users_post_without_header
    bad_order_rejected empty_order_rejected
  show ?thesis by blast
qed

theorem execute_accumulates_errors_witness:
  "execute plain_runtime (Some bad_order) (Some orders_spec)
   = Inr \<lparr>valid = False,
          errors = [\<lparr>location = ''path'', field = ''id'',
                     message = ''Expected type '' @ quoted ''integer'' @ '' but got '' @ quoted ''string''\<rparr>,
                    \<lparr>location = ''query'', field = ''limit'',
                     message = ''Expected type '' @ quoted ''integer'' @ '' but got '' @ quoted ''string''\<rparr>,
                    \<lparr>location = ''query'', field = ''limit'',
                     message = ''Query parameter '' @ quoted ''limit'' @ '' cannot be empty''\<rparr>,
                    \<lparr>location = ''header'', field = ''X-Api-Key'',
                     message = ''Expected type '' @ quoted ''string'' @ '' but got '' @ quoted ''number''\<rparr>,
                    \<lparr>location = ''body'', field = ''body'',
                     message = ''Missing required property: item''\<rparr>],
          warnings = []\<rparr>
   \<and> map_of (paths orders_spec) ''/orders/{id}'' = Some orders_item
   \<and> map_of (pathItem_operations orders_item) (toLowerCase plain_runtime ''PUT'') = Some orders_put
   \<and> (\<exists>rp (rq :: ValidationResult) (rh :: ValidationResult) (rb :: ValidationResult).
         validatePathParameters plain_runtime
           (filter (\<lambda>q. param_in q = ''path'')
              ((case pathItem_parameters orders_item of Some xs \<Rightarrow> xs | None \<Rightarrow> [])
               @ (case op_parameters orders_put of Some xs \<Rightarrow> xs | None \<Rightarrow> [])))
           [(''id'', JStr ''abc''), (''limit'', JStr [])] ''/orders/{id}''
           \<lparr>valid = True, errors = [], warnings = []\<rparr> = Inr rp
       \<and> errors rp
           = [\<lparr>location = ''path'', field = ''id'',
               message = ''Expected type '' @ quoted ''integer'' @ '' but got '' @ quoted ''string''\<rparr>]
       \<and> errors rq
           = [\<lparr>location = ''query'', field = ''limit'',
               message = ''Expected type '' @ quoted ''integer'' @ '' but got '' @ quoted ''string''\<rparr>,
              \<lparr>location = ''query'', field = ''limit'',
               message = ''Query parameter '' @ quoted ''limit'' @ '' cannot be empty''\<rparr>]
       \<and> errors rh
           = [\<lparr>location = ''header'', field = ''X-Api-Key'',
               message = ''Expected type '' @ quoted ''string'' @ '' but got '' @ quoted ''number''\<rparr>]
       \<and> errors rb
           = [\<lparr>location = ''body'', field = ''body'',
               message = ''Missing required property: item''\<rparr>])"
proof -
  let ?r = "\<lparr>valid = False,
          errors = [\<lparr>location = ''path'', field = ''id'',
                     message = ''Expected type '' @ quoted ''integer'' @ '' but got '' @ quoted ''string''\<rparr>,
                    \<lparr>location = ''query'', field = ''limit'',
                     message = ''Expected type '' @ quoted ''integer'' @ '' but got '' @ quoted ''string''\<rparr>,
                    \<lparr>location = ''query'', field = ''limit'',
                     message = ''Query parameter '' @ quoted ''limit'' @ '' cannot be empty''\<rparr>,
                    \<lparr>location = ''header'', field = ''X-Api-Key'',
                     message = ''Expected type '' @ quoted ''string'' @ '' but got '' @ quoted ''number''\<rparr>,
                    \<lparr>location = ''body'', field = ''body'',
                     message = ''Missing required property: item''\<rparr>],
          warnings = []\<rparr>"
  note t = execute_accumulates_errors[of plain_runtime _ _ orders_spec "''/orders/{id}''" orders_item
      "''PUT''" orders_put "Some [(''id'', JStr ''abc''), (''limit'', JStr [])]"
      "Some [(''x-api-key'', JNum 7)]" "Some (JObj [])"]
  have e: "execute plain_runtime (Some bad_order) (Some orders_spec) = Inr ?r"
    by (rule t[THEN conjunct2, THEN conjunct2, THEN conjunct2, THEN conjunct2, THEN conjunct2,
          THEN conjunct1])
  have d: "map_of (paths orders_spec) ''/orders/{id}'' = Some orders_item"
    "map_of (pathItem_operations orders_item) (toLowerCase plain_runtime ''PUT'') = Some orders_put"
    by (simp_all add: orders_spec_def orders_item_def lower_samples)
  from e have e': "execute plain_runtime
      (Some \<lparr>path = Some ''/orders/{id}'', http_method = Some ''PUT'',
             params = Some [(''id'', JStr ''abc''), (''limit'', JStr [])],
             headers = Some [(''x-api-key'', JNum 7)], body = Some (JObj [])\<rparr>)
      (Some orders_spec) = Inr ?r"
    by (simp add: bad_order_def)
  note ex = t[THEN conjunct2, THEN conjunct1, rule_format, of ?r, OF conjI[OF d(1) conjI[OF d(2) e']]]
  obtain rp and rq :: ValidationResult and rh :: ValidationResult and rb :: ValidationResult where
    rp: "validatePathParameters plain_runtime
           (filter (\<lambda>q. param_in q = ''path'')
              ((case pathItem_parameters orders_item of Some xs \<Rightarrow> xs | None \<Rightarrow> [])
               @ (case op_parameters orders_put of Some xs \<Rightarrow> xs | None \<Rightarrow> [])))
           (case Some [(''id'', JStr ''abc''), (''limit'', JStr [])] of Some xs \<Rightarrow> xs | None \<Rightarrow> [])
           ''/orders/{id}'' \<lparr>valid = True, errors = [], warnings = []\<rparr> = Inr rp"
    and f: "filter (\<lambda>e. location e = ''path'') (errors ?r) = errors rp"
      "filter (\<lambda>e. location e = ''query'') (errors ?r) = errors rq"
      "filter (\<lambda>e. location e = ''header'') (errors ?r) = errors rh"
      "filter (\<lambda>e. location e = ''body'') (errors ?r) = errors rb"
  proof -
    from ex show ?thesis by (elim exE conjE) (rule that; assumption)
  qed
  from rp have rp': "validatePathParameters plain_runtime
           (filter (\<lambda>q. param_in q = ''path'')
              ((case pathItem_parameters orders_item of Some xs \<Rightarrow> xs | None \<Rightarrow> [])
               @ (case op_parameters orders_put of Some xs \<Rightarrow> xs | None \<Rightarrow> [])))
           [(''id'', JStr ''abc''), (''limit'', JStr [])] ''/orders/{id}''
           \<lparr>valid = True, errors = [], warnings = []\<rparr> = Inr rp"
    by simp
  from f have g: "errors rp
           = [\<lparr>location = ''path'', field = ''id'',
               message = ''Expected type '' @ quoted ''integer'' @ '' but got '' @ quoted ''string''\<rparr>]"
      "errors rq
           = [\<lparr>location = ''query'', field = ''limit'',
               message = ''Expected type '' @ quoted ''integer'' @ '' but got '' @ quoted ''string''\<rparr>,
              \<lparr>location = ''query'', field = ''limit'',
               message = ''Query parameter '' @ quoted ''limit'' @ '' cannot be empty''\<rparr>]"
      "errors rh
           = [\<lparr>location = ''header'', field = ''X-Api-Key'',
               message = ''Expected type '' @ quoted ''string'' @ '' but got '' @ quoted ''number''\<rparr>]"
      "errors rb
           = [\<lparr>location = ''body'', field = ''body'',
               message = ''Missing required property: item''\<rparr>]"
    by simp_all
  from rp' g have "\<exists>rp (rq :: ValidationResult) (rh :: ValidationResult) (rb :: ValidationResult).
         validatePathParameters plain_runtime
           (filter (\<lambda>q. param_in q = ''path'')
              ((case pathItem_parameters orders_item of Some xs \<Rightarrow> xs | None \<Rightarrow> [])
               @ (case op_parameters orders_put of Some xs \<Rightarrow> xs | None \<Rightarrow> [])))
           [(''id'', JStr ''abc''), (''limit'', JStr [])] ''/orders/{id}''
           \<lparr>valid = True, errors = [], warnings = []\<rparr> = Inr rp
       \<and> errors rp
           = [\<lparr>location = ''path'', field = ''id'',
               message = ''Expected type '' @ quoted ''integer'' @ '' but got '' @ quoted ''string''\<rparr>]
       \<and> errors rq
           = [\<lparr>location = ''query'', field = ''limit'',
               message = ''Expected type '' @ quoted ''integer'' @ '' but got '' @ quoted ''string''\<rparr>,
              \<lparr>location = ''query'', field = ''limit'',
               message = ''Query parameter '' @ quoted ''limit'' @ '' cannot be empty''\<rparr>]
       \<and> errors rh
           = [\<lparr>location = ''header'', field = ''X-Api-Key'',
               message = ''Expected type '' @ quoted ''string'' @ '' but got '' @ quoted ''number''\<rparr>]
       \<and> errors rb
           = [\<lparr>location = ''body'', field = ''body'',
               message = ''Missing required property: item''\<rparr>]"
    by blast
  with e d show ?thesis by (intro conjI)
qed




















text \<open>
  The lookups of \<open>execute\<close> find inherited names as well: a method that names a built-in of
  every object is taken for an operation that declares nothing, and the call returns.
\<close>

lemma execute_inherited_method:
  "execute plain_runtime
     (Some \<lparr>path = Some ''/users'', http_method = Some ''constructor'', params = None,
            headers = None, body = None\<rparr>)
     (Some users_spec)
   = Inr \<lparr>valid = True, errors = [], warnings = []\<rparr>"
  by (simp add: execute_def validateArgs_def and_then_def paths_get_def item_get_def
      other_member_def no_operation_def object_prototype_names_def
      item_parameters_def users_spec_def users_item_def lower_samples validate_operation_def
      Let_def)

end
